theory Spec2Isabelle
  imports Main "HOL-Library.Log_Nat"
begin

section \<open>The postal-code validator\<close>

text \<open>
  \<^verbatim>\<open>common.IsValidCEP\<close> and its copy \<^verbatim>\<open>isValidCEP\<close> compile the pattern
  \<^verbatim>\<open>^\d{8}$\<close> and call \<^verbatim>\<open>MatchString\<close>. The fragment of Go's regular expressions that
  the pattern uses is embedded as a datatype with a backtracking matcher. A Go string
  is a sequence of bytes, here a \<^typ>\<open>string\<close>. Go's matcher walks the text rune by
  rune; the only consuming item of the pattern is the class \<^verbatim>\<open>[0-9]\<close>, which accepts
  one-byte runes only, and every byte of a longer UTF-8 sequence lies above \<^verbatim>\<open>0x7f\<close>,
  so walking byte by byte accepts the same texts.
\<close>

datatype regex =
    BeginText
  | EndText
  | CharClass "(char \<times> char) list"
  | Concat regex regex
  | Repeat nat regex

definition in_class :: "(char \<times> char) list \<Rightarrow> char \<Rightarrow> bool" where
  "in_class rs c =
     list_ex (\<lambda>(lo, hi). (of_char lo :: nat) \<le> of_char c \<and> (of_char c :: nat) \<le> of_char hi) rs"

primrec weight :: "regex \<Rightarrow> nat" where
  "weight BeginText = 0"
| "weight EndText = 0"
| "weight (CharClass rs) = 0"
| "weight (Concat r1 r2) = Suc (weight r1 + weight r2)"
| "weight (Repeat n r) = Suc (n + weight r)"

text \<open>
  \<open>step r s i\<close> lists the offsets at which a match of \<open>r\<close> that starts at offset \<open>i\<close>
  of the text \<open>s\<close> can end.
\<close>

function step :: "regex \<Rightarrow> string \<Rightarrow> nat \<Rightarrow> nat list" where
  "step BeginText s i = (if i = 0 then [i] else [])"
| "step EndText s i = (if i = length s then [i] else [])"
| "step (CharClass rs) s i = (if i < length s \<and> in_class rs (s ! i) then [Suc i] else [])"
| "step (Concat r1 r2) s i = concat (map (step r2 s) (step r1 s i))"
| "step (Repeat 0 r) s i = [i]"
| "step (Repeat (Suc n) r) s i = concat (map (step (Repeat n r) s) (step r s i))"
  by pat_completeness auto
termination
  by (relation "measure (\<lambda>(r, s, i). weight r)") auto

text \<open>\<^verbatim>\<open>MatchString\<close> is an unanchored search: a match may start at any offset.\<close>

definition MatchString :: "regex \<Rightarrow> string \<Rightarrow> bool" where
  "MatchString re s = list_ex (\<lambda>i. step re s i \<noteq> []) [0..<Suc (length s)]"

text \<open>
  The pattern \<^verbatim>\<open>^\d{8}$\<close>: without the flag \<^verbatim>\<open>m\<close>, \<^verbatim>\<open>^\<close> and \<^verbatim>\<open>$\<close> are the two ends of the
  text, and \<^verbatim>\<open>\d\<close> is the ASCII class \<^verbatim>\<open>[0-9]\<close>.
\<close>

definition cep_pattern :: regex where
  "cep_pattern =
     Concat BeginText (Concat (Repeat 8 (CharClass [(CHR ''0'', CHR ''9'')])) EndText)"

definition IsValidCEP :: "string \<Rightarrow> bool" where
  "IsValidCEP cep = (let re = cep_pattern in MatchString re cep)"

text \<open>The copy in the untraced lookup service has the same body.\<close>

definition isValidCEP :: "string \<Rightarrow> bool" where
  "isValidCEP cep = (let re = cep_pattern in MatchString re cep)"

definition is_digit :: "char \<Rightarrow> bool" where
  "is_digit c = (c \<in> set ''0123456789'')"

section \<open>Go's \<^verbatim>\<open>float64\<close>\<close>

text \<open>
  A \<^verbatim>\<open>float64\<close> is an IEEE 754 binary64 value: a finite number, given by its exact
  rational value, one of the two infinities, or a NaN. Negative zero is identified with
  zero (Go's \<^verbatim>\<open>==\<close> does not tell them apart). Every operation rounds its exact result
  to the nearest representable number, ties to the even significand.
\<close>

datatype float64 = Finite rat | PosInf | NegInf | NaN

definition pow2 :: "int \<Rightarrow> rat" where
  "pow2 e = (if 0 \<le> e then 2 ^ nat e else 1 / 2 ^ nat (- e))"

text \<open>The exponent of the leading bit of a positive rational.\<close>

definition floor_log2 :: "rat \<Rightarrow> int" where
  "floor_log2 a =
     (let (p, q) = quotient_of a; k = bitlen p - bitlen q
      in if pow2 k \<le> a then k else k - 1)"

definition round_half_even :: "rat \<Rightarrow> int" where
  "round_half_even q =
     (let f = \<lfloor>q\<rfloor>; r = q - of_int f
      in if r < 1 / 2 then f else if 1 / 2 < r then f + 1 else if even f then f else f + 1)"

text \<open>
  Rounding to binary64: 53 bits of significand, the unit in the last place never below
  2 to the power -1074 (subnormal numbers), overflow to an infinity from 2 to the power
  1024 on.
\<close>

definition round64 :: "rat \<Rightarrow> float64" where
  "round64 x =
     (if x = 0 then Finite 0
      else
        let a = \<bar>x\<bar>;
            e = max (floor_log2 a - 52) (- 1074);
            v = of_int (round_half_even (a / pow2 e)) * pow2 e
        in if pow2 1024 \<le> v then (if 0 < x then PosInf else NegInf)
           else Finite (if 0 < x then v else - v))"

text \<open>The exact product, before rounding; the infinities and NaN follow IEEE 754.\<close>

fun mul_exact :: "float64 \<Rightarrow> float64 \<Rightarrow> float64" where
  "mul_exact NaN y = NaN"
| "mul_exact x NaN = NaN"
| "mul_exact (Finite a) (Finite b) = Finite (a * b)"
| "mul_exact (Finite a) PosInf = (if a = 0 then NaN else if 0 < a then PosInf else NegInf)"
| "mul_exact (Finite a) NegInf = (if a = 0 then NaN else if 0 < a then NegInf else PosInf)"
| "mul_exact PosInf (Finite b) = (if b = 0 then NaN else if 0 < b then PosInf else NegInf)"
| "mul_exact NegInf (Finite b) = (if b = 0 then NaN else if 0 < b then NegInf else PosInf)"
| "mul_exact PosInf PosInf = PosInf"
| "mul_exact PosInf NegInf = NegInf"
| "mul_exact NegInf PosInf = NegInf"
| "mul_exact NegInf NegInf = PosInf"

fun rounded :: "float64 \<Rightarrow> float64" where
  "rounded (Finite a) = round64 a"
| "rounded x = x"

definition f64_mul :: "float64 \<Rightarrow> float64 \<Rightarrow> float64" where
  "f64_mul x y = rounded (mul_exact x y)"

text \<open>Addition rounds the exact sum once; its first argument may be an exact product.\<close>

fun f64_add :: "float64 \<Rightarrow> float64 \<Rightarrow> float64" where
  "f64_add NaN y = NaN"
| "f64_add x NaN = NaN"
| "f64_add (Finite a) (Finite b) = round64 (a + b)"
| "f64_add PosInf NegInf = NaN"
| "f64_add NegInf PosInf = NaN"
| "f64_add PosInf y = PosInf"
| "f64_add NegInf y = NegInf"
| "f64_add x PosInf = PosInf"
| "f64_add x NegInf = NegInf"

text \<open>
  The Go specification lets an implementation fuse \<^verbatim>\<open>x*y + z\<close> into one operation
  that rounds once (the compiler does so on arm64, among others) or round the product
  and the sum separately (amd64). The flag \<open>fused\<close> says which one the build does.
\<close>

definition mul_add :: "bool \<Rightarrow> float64 \<Rightarrow> float64 \<Rightarrow> float64 \<Rightarrow> float64" where
  "mul_add fused x y z =
     (if fused then f64_add (mul_exact x y) z else f64_add (f64_mul x y) z)"

text \<open>An untyped constant of the source, converted to \<^verbatim>\<open>float64\<close>.\<close>

definition f64_const :: "rat \<Rightarrow> float64" where
  "f64_const c = round64 c"

fun is_finite :: "float64 \<Rightarrow> bool" where
  "is_finite (Finite a) = True"
| "is_finite x = False"

section \<open>JSON bodies and \<^verbatim>\<open>encoding/json\<close>\<close>

text \<open>
  The bytes of a body are abstracted to what the scanner of \<^verbatim>\<open>encoding/json\<close> makes of
  them: \<open>None\<close> when they are not a JSON value (the empty body included), the value
  otherwise. For \<^verbatim>\<open>json.Unmarshal\<close> the value is the whole body, for a \<^verbatim>\<open>json.Decoder\<close> it
  is the first value of the stream. A number carries the exact value of its literal, a
  string the text it denotes, an object its members in the order of the text.
\<close>

datatype json =
    JNull
  | JBool bool
  | JNumber rat
  | JString string
  | JArray "json list"
  | JObject "(string \<times> json) list"

type_synonym payload = "json option"

datatype error =
    SyntaxError
  | UnmarshalTypeError
  | ErrNotFound
  | URLError
  | TransportError
  | DeadlineExceeded
  | ReadError

text \<open>
  A member of an object is stored in the field whose tag equals the key, or equals it
  under Go's case folding: ASCII letters fold to upper case, and the only runes beyond
  ASCII that fold to an ASCII letter are U+212A (Kelvin sign, to \<^verbatim>\<open>K\<close>) and U+017F (long
  s, to \<^verbatim>\<open>S\<close>). No two tags of one struct of this program are equal under folding.
\<close>

definition fold_ascii :: "char \<Rightarrow> char" where
  "fold_ascii c =
     (if (97::nat) \<le> of_char c \<and> of_char c \<le> (122::nat) then char_of (of_char c - (32::nat))
      else c)"

fun foldName :: "string \<Rightarrow> string" where
  "foldName (c1 # c2 # c3 # cs) =
     (if c1 = CHR 0xE2 \<and> c2 = CHR 0x84 \<and> c3 = CHR 0xAA then CHR ''K'' # foldName cs
      else if c1 = CHR 0xC5 \<and> c2 = CHR 0xBF then CHR ''S'' # foldName (c3 # cs)
      else fold_ascii c1 # foldName (c2 # c3 # cs))"
| "foldName [c1, c2] =
     (if c1 = CHR 0xC5 \<and> c2 = CHR 0xBF then [CHR ''S''] else [fold_ascii c1, fold_ascii c2])"
| "foldName [c1] = [fold_ascii c1]"
| "foldName [] = []"

definition is_field :: "string \<Rightarrow> string \<Rightarrow> bool" where
  "is_field tag key = (foldName key = foldName tag)"

text \<open>
  Storing a JSON value in a field: \<^verbatim>\<open>null\<close> leaves the field as it is, a value of the
  field's kind is stored, any other value is an \<^verbatim>\<open>UnmarshalTypeError\<close>. A number that
  \<^verbatim>\<open>strconv.ParseFloat\<close> rounds to an infinity is out of range, an error of the same type.
\<close>

fun store_string :: "json \<Rightarrow> string \<Rightarrow> error + string" where
  "store_string (JString s) old = Inr s"
| "store_string JNull old = Inr old"
| "store_string v old = Inl UnmarshalTypeError"

fun store_bool :: "json \<Rightarrow> bool \<Rightarrow> error + bool" where
  "store_bool (JBool b) old = Inr b"
| "store_bool JNull old = Inr old"
| "store_bool v old = Inl UnmarshalTypeError"

fun store_float64 :: "json \<Rightarrow> float64 \<Rightarrow> error + float64" where
  "store_float64 (JNumber x) old =
     (case round64 x of Finite a \<Rightarrow> Inr (Finite a) | _ \<Rightarrow> Inl UnmarshalTypeError)"
| "store_float64 JNull old = Inr old"
| "store_float64 v old = Inl UnmarshalTypeError"

text \<open>
  Decoding into a struct: a body that is not JSON is a \<^verbatim>\<open>SyntaxError\<close>, \<^verbatim>\<open>null\<close> leaves
  the struct as it is, an object stores its members one after the other (\<open>members\<close>),
  any other value is an \<^verbatim>\<open>UnmarshalTypeError\<close>. The first error is the one returned.
\<close>

definition into_struct ::
  "((string \<times> json) list \<Rightarrow> 'a \<Rightarrow> error + 'a) \<Rightarrow> json \<Rightarrow> 'a \<Rightarrow> error + 'a" where
  "into_struct members v old =
     (case v of
        JNull \<Rightarrow> Inr old
      | JObject kvs \<Rightarrow> members kvs old
      | _ \<Rightarrow> Inl UnmarshalTypeError)"

definition Unmarshal ::
  "((string \<times> json) list \<Rightarrow> 'a \<Rightarrow> error + 'a) \<Rightarrow> payload \<Rightarrow> 'a \<Rightarrow> error + 'a" where
  "Unmarshal members body zero =
     (case body of None \<Rightarrow> Inl SyntaxError | Some v \<Rightarrow> into_struct members v zero)"

text \<open>
  \<^verbatim>\<open>json.NewDecoder(r).Decode\<close> reads the first value of the stream and stores it as
  \<^verbatim>\<open>json.Unmarshal\<close> does; a stream without one (the empty stream included) is an error.
\<close>

definition Decode ::
  "((string \<times> json) list \<Rightarrow> 'a \<Rightarrow> error + 'a) \<Rightarrow> payload \<Rightarrow> 'a \<Rightarrow> error + 'a" where
  "Decode members stream zero =
     (case stream of None \<Rightarrow> Inl SyntaxError | Some v \<Rightarrow> into_struct members v zero)"

subsection \<open>The structs of the two services\<close>

record Entrada =
  CEP :: string

record WeatherResponse =
  City :: string
  TempC :: float64
  TempF :: float64
  TempK :: float64

text \<open>
  \<^verbatim>\<open>TempResponse\<close> of the untraced lookup service has the fields and tags of
  \<^verbatim>\<open>common.WeatherResponse\<close>.
\<close>

type_synonym TempResponse = WeatherResponse

record ViaCEPResponse =
  Localidade :: string
  Erro :: bool

text \<open>The anonymous struct \<^verbatim>\<open>Current\<close> of \<^verbatim>\<open>WeatherAPIResponse\<close>, and the struct itself.\<close>

record Current =
  temp_c :: float64

record WeatherAPIResponse =
  Current :: Current

definition zero_Entrada :: Entrada where
  "zero_Entrada = \<lparr>CEP = []\<rparr>"

definition zero_WeatherResponse :: WeatherResponse where
  "zero_WeatherResponse = \<lparr>City = [], TempC = Finite 0, TempF = Finite 0, TempK = Finite 0\<rparr>"

definition zero_ViaCEPResponse :: ViaCEPResponse where
  "zero_ViaCEPResponse = \<lparr>Localidade = [], Erro = False\<rparr>"

definition zero_WeatherAPIResponse :: WeatherAPIResponse where
  "zero_WeatherAPIResponse = \<lparr>Current = \<lparr>temp_c = Finite 0\<rparr>\<rparr>"

fun Entrada_members :: "(string \<times> json) list \<Rightarrow> Entrada \<Rightarrow> error + Entrada" where
  "Entrada_members [] e = Inr e"
| "Entrada_members ((k, v) # kvs) e =
     (if is_field ''cep'' k then
        (case store_string v (CEP e) of
           Inl err \<Rightarrow> Inl err
         | Inr s \<Rightarrow> Entrada_members kvs (e\<lparr>CEP := s\<rparr>))
      else Entrada_members kvs e)"

fun WeatherResponse_members ::
  "(string \<times> json) list \<Rightarrow> WeatherResponse \<Rightarrow> error + WeatherResponse" where
  "WeatherResponse_members [] w = Inr w"
| "WeatherResponse_members ((k, v) # kvs) w =
     (if is_field ''city'' k then
        (case store_string v (City w) of
           Inl err \<Rightarrow> Inl err
         | Inr s \<Rightarrow> WeatherResponse_members kvs (w\<lparr>City := s\<rparr>))
      else if is_field ''temp_C'' k then
        (case store_float64 v (TempC w) of
           Inl err \<Rightarrow> Inl err
         | Inr x \<Rightarrow> WeatherResponse_members kvs (w\<lparr>TempC := x\<rparr>))
      else if is_field ''temp_F'' k then
        (case store_float64 v (TempF w) of
           Inl err \<Rightarrow> Inl err
         | Inr x \<Rightarrow> WeatherResponse_members kvs (w\<lparr>TempF := x\<rparr>))
      else if is_field ''temp_K'' k then
        (case store_float64 v (TempK w) of
           Inl err \<Rightarrow> Inl err
         | Inr x \<Rightarrow> WeatherResponse_members kvs (w\<lparr>TempK := x\<rparr>))
      else WeatherResponse_members kvs w)"

fun ViaCEPResponse_members ::
  "(string \<times> json) list \<Rightarrow> ViaCEPResponse \<Rightarrow> error + ViaCEPResponse" where
  "ViaCEPResponse_members [] r = Inr r"
| "ViaCEPResponse_members ((k, v) # kvs) r =
     (if is_field ''localidade'' k then
        (case store_string v (Localidade r) of
           Inl err \<Rightarrow> Inl err
         | Inr s \<Rightarrow> ViaCEPResponse_members kvs (r\<lparr>Localidade := s\<rparr>))
      else if is_field ''erro'' k then
        (case store_bool v (Erro r) of
           Inl err \<Rightarrow> Inl err
         | Inr b \<Rightarrow> ViaCEPResponse_members kvs (r\<lparr>Erro := b\<rparr>))
      else ViaCEPResponse_members kvs r)"

fun Current_members :: "(string \<times> json) list \<Rightarrow> Current \<Rightarrow> error + Current" where
  "Current_members [] c = Inr c"
| "Current_members ((k, v) # kvs) c =
     (if is_field ''temp_c'' k then
        (case store_float64 v (temp_c c) of
           Inl err \<Rightarrow> Inl err
         | Inr x \<Rightarrow> Current_members kvs (c\<lparr>temp_c := x\<rparr>))
      else Current_members kvs c)"

fun WeatherAPIResponse_members ::
  "(string \<times> json) list \<Rightarrow> WeatherAPIResponse \<Rightarrow> error + WeatherAPIResponse" where
  "WeatherAPIResponse_members [] w = Inr w"
| "WeatherAPIResponse_members ((k, v) # kvs) w =
     (if is_field ''current'' k then
        (case into_struct Current_members v (Current w) of
           Inl err \<Rightarrow> Inl err
         | Inr c \<Rightarrow> WeatherAPIResponse_members kvs (w\<lparr>Current := c\<rparr>))
      else WeatherAPIResponse_members kvs w)"

section \<open>HTTP requests and responses\<close>

type_synonym header = "string \<rightharpoonup> string"

text \<open>
  An inbound request, as a handler reads it: its headers, the pairs of its URL query and
  its body, a stream of JSON values of which the gateway decodes the first.
\<close>

record request =
  Header :: header
  Query :: "(string \<times> string) list"
  Body :: payload

text \<open>\<^verbatim>\<open>Values.Get\<close>: the first value of the key, the empty string when there is none.\<close>

definition Get :: "(string \<times> string) list \<Rightarrow> string \<Rightarrow> string" where
  "Get q k = (case map_of q k of None \<Rightarrow> [] | Some v \<Rightarrow> v)"

text \<open>
  What a handler leaves in its \<^verbatim>\<open>ResponseWriter\<close>: the status (200 when the handler
  never sets one), the content type and the body, which is a text, the JSON encoding of
  a record, or nothing.
\<close>

datatype content = NoContent | Text string | JSON WeatherResponse

record response =
  StatusCode :: nat
  ContentType :: string
  Content :: content

definition StatusOK :: nat where "StatusOK = 200"
definition StatusBadRequest :: nat where "StatusBadRequest = 400"
definition StatusNotFound :: nat where "StatusNotFound = 404"
definition StatusUnprocessableEntity :: nat where "StatusUnprocessableEntity = 422"
definition StatusInternalServerError :: nat where "StatusInternalServerError = 500"

text \<open>\<^verbatim>\<open>http.Error\<close> writes the status and the message, followed by a newline, as plain text.\<close>

definition http_Error :: "string \<Rightarrow> nat \<Rightarrow> response" where
  "http_Error msg code =
     \<lparr>StatusCode = code, ContentType = ''text/plain; charset=utf-8'',
      Content = Text (msg @ [CHR 0x0A])\<rparr>"

text \<open>
  \<^verbatim>\<open>w.Header().Set("Content-Type", "application/json")\<close> followed by
  \<^verbatim>\<open>json.NewEncoder(w).Encode(v)\<close>. The encoder refuses an infinity or a NaN and then
  writes nothing; the handlers drop its error, so that the response is an empty 200.
\<close>

definition encodable :: "WeatherResponse \<Rightarrow> bool" where
  "encodable v = (is_finite (TempC v) \<and> is_finite (TempF v) \<and> is_finite (TempK v))"

definition Encode :: "WeatherResponse \<Rightarrow> response" where
  "Encode v =
     \<lparr>StatusCode = StatusOK, ContentType = ''application/json'',
      Content = (if encodable v then JSON v else NoContent)\<rparr>"

text \<open>
  An outbound request, and what an HTTP client gets back: the status, the bytes
  \<^verbatim>\<open>io.ReadAll\<close> could read from the body (through the JSON scanner) and the error it
  ended with, if any.
\<close>

record client_request =
  Method :: string
  URL :: string
  ReqHeader :: header

record client_response =
  Status :: nat
  Data :: payload
  ReadErr :: "error option"

section \<open>Tracing\<close>

text \<open>
  The handlers use the tracer and the propagator that \<^verbatim>\<open>common.InitProvider\<close> installs.
  That function is not among the sources, so this section follows the specification:
  spans scoped to one step, created at its entry and closed at its exit, a trace context
  threaded through the calls, and the standard textual trace-context header on every
  hop.
\<close>

text \<open>
  Modelled from the spec: the identifiers a span carries (\<^verbatim>\<open>common.InitProvider\<close>, which
  installs the tracer provider and the propagator, is not among the sources). The trace
  and span identifiers are the lower-case hexadecimal texts of the trace-context
  headers.
\<close>

record span_context =
  TraceID :: string
  SpanID :: string
  Sampled :: bool
  Remote :: bool

datatype span_status = Unset | Error string | Ok

text \<open>
  Modelled from the spec: a span, scoped to one step, with its status (ok or error), the
  errors recorded on it and whether it has been closed.
\<close>

record span =
  Name :: string
  Context :: span_context
  Parent :: "span_context option"
  SpanStatus :: span_status
  Recorded :: "error list"
  Ended :: bool

text \<open>
  Modelled from the spec: the trace context that a \<^verbatim>\<open>context.Context\<close> carries, the span
  context of the current span if there is one.
\<close>

record go_context =
  SpanContextFromContext :: "span_context option"

definition Background :: go_context where
  "Background = \<lparr>SpanContextFromContext = None\<rparr>"

text \<open>
  Modelled from the spec: the tracer that \<^verbatim>\<open>common.InitProvider\<close> sets up, as its
  generator of identifiers and its decision to sample a new trace.
\<close>

record tracer =
  NewTraceID :: "nat \<Rightarrow> string"
  NewSpanID :: "nat \<Rightarrow> string"
  SampleRoot :: bool

text \<open>
  Modelled from the spec: the state of tracing, the number of identifiers drawn so far
  and the spans started so far; a span is referred to by its position.
\<close>

record trace_state =
  Drawn :: nat
  Spans :: "span list"

text \<open>
  Modelled from the spec: an identifier of the trace-context header is a text of
  lower-case hexadecimal digits of a fixed length, not all of them zero.
\<close>

definition is_hex :: "char \<Rightarrow> bool" where
  "is_hex c = (c \<in> set ''0123456789abcdef'')"

definition valid_id :: "nat \<Rightarrow> string \<Rightarrow> bool" where
  "valid_id n s = (length s = n \<and> list_all is_hex s \<and> \<not> list_all (\<lambda>c. c = CHR ''0'') s)"

text \<open>
  Modelled from the spec: a span context is valid when its trace identifier is 32
  hexadecimal digits and its span identifier 16, neither all zero.
\<close>

definition IsValid :: "span_context \<Rightarrow> bool" where
  "IsValid sc = (valid_id 32 (TraceID sc) \<and> valid_id 16 (SpanID sc))"

text \<open>
  Modelled from the spec: the parent of a new span is the span context in the context,
  when it is valid.
\<close>

definition parent_of :: "go_context \<Rightarrow> span_context option" where
  "parent_of ctx =
     (case SpanContextFromContext ctx of
        None \<Rightarrow> None
      | Some p \<Rightarrow> if IsValid p then Some p else None)"

text \<open>
  Modelled from the spec: a child span is in the trace of its parent and sampled as its
  parent is; a span without a parent starts a new trace.
\<close>

definition new_span_context :: "tracer \<Rightarrow> span_context option \<Rightarrow> nat \<Rightarrow> span_context" where
  "new_span_context tr parent n =
     (case parent of
        None \<Rightarrow> \<lparr>TraceID = NewTraceID tr n, SpanID = NewSpanID tr n,
                 Sampled = SampleRoot tr, Remote = False\<rparr>
      | Some p \<Rightarrow> \<lparr>TraceID = TraceID p, SpanID = NewSpanID tr n,
                   Sampled = Sampled p, Remote = False\<rparr>)"

text \<open>
  Modelled from the spec: \<^verbatim>\<open>Tracer.Start\<close> starts a span under the span of the context
  and returns the context that carries the new span, and the span.
\<close>

definition Start ::
  "tracer \<Rightarrow> go_context \<Rightarrow> string \<Rightarrow> trace_state \<Rightarrow> (go_context \<times> nat) \<times> trace_state" where
  "Start tr ctx name st =
     (let n = Drawn st;
          parent = parent_of ctx;
          sc = new_span_context tr parent n;
          sp = \<lparr>Name = name, Context = sc, Parent = parent, SpanStatus = Unset,
                Recorded = [], Ended = False\<rparr>
      in ((ctx\<lparr>SpanContextFromContext := Some sc\<rparr>, length (Spans st)),
          st\<lparr>Drawn := Suc n, Spans := Spans st @ [sp]\<rparr>))"

text \<open>
  Modelled from the spec: the operations on a span change it until it is closed, and
  leave it alone afterwards.
\<close>

definition on_span :: "nat \<Rightarrow> (span \<Rightarrow> span) \<Rightarrow> trace_state \<Rightarrow> trace_state" where
  "on_span i f st =
     (if i < length (Spans st) \<and> \<not> Ended (Spans st ! i)
      then st\<lparr>Spans := (Spans st)[i := f (Spans st ! i)]\<rparr> else st)"

text \<open>Modelled from the spec: \<^verbatim>\<open>Span.RecordError\<close> adds the error to the span.\<close>

definition RecordError :: "nat \<Rightarrow> error \<Rightarrow> trace_state \<Rightarrow> trace_state" where
  "RecordError i err = on_span i (\<lambda>sp. sp\<lparr>Recorded := Recorded sp @ [err]\<rparr>)"

text \<open>Modelled from the spec: \<^verbatim>\<open>Span.SetStatus\<close> sets the status of the span.\<close>

definition SetStatus :: "nat \<Rightarrow> span_status \<Rightarrow> trace_state \<Rightarrow> trace_state" where
  "SetStatus i s = on_span i (\<lambda>sp. sp\<lparr>SpanStatus := s\<rparr>)"

text \<open>Modelled from the spec: \<^verbatim>\<open>Span.End\<close> closes the span.\<close>

definition End :: "nat \<Rightarrow> trace_state \<Rightarrow> trace_state" where
  "End i = on_span i (\<lambda>sp. sp\<lparr>Ended := True\<rparr>)"

subsection \<open>The trace-context header\<close>

text \<open>
  Modelled from the spec: the name of the trace-context header, as a key of Go's
  \<^verbatim>\<open>http.Header\<close>.
\<close>

definition traceparent :: string where
  "traceparent = ''Traceparent''"

text \<open>
  Modelled from the spec: the value of the standard textual trace-context header,
  version, trace identifier, span identifier and flags, separated by hyphens.
\<close>

definition format_traceparent :: "span_context \<Rightarrow> string" where
  "format_traceparent sc =
     ''00-'' @ TraceID sc @ ''-'' @ SpanID sc @ ''-'' @ (if Sampled sc then ''01'' else ''00'')"

text \<open>Modelled from the spec: the parts of a header value between its separators.\<close>

fun split_on :: "char \<Rightarrow> string \<Rightarrow> string list" where
  "split_on d [] = [[]]"
| "split_on d (c # cs) =
     (if c = d then [] # split_on d cs
      else (case split_on d cs of [] \<Rightarrow> [[c]] | p # ps \<Rightarrow> (c # p) # ps))"

text \<open>
  Modelled from the spec: reading the header value back; a value that is not of version
  00 with two valid identifiers and two hexadecimal digits of flags carries no context.
  The sampled flag is the lowest bit of the flags.
\<close>

definition parse_traceparent :: "string \<Rightarrow> span_context option" where
  "parse_traceparent v =
     (case split_on CHR ''-'' v of
        [ver, tid, sid, flags] \<Rightarrow>
          if ver = ''00'' \<and> valid_id 32 tid \<and> valid_id 16 sid
             \<and> length flags = 2 \<and> list_all is_hex flags
          then Some \<lparr>TraceID = tid, SpanID = sid,
                     Sampled = (last flags \<in> set ''13579bdf''), Remote = True\<rparr>
          else None
      | _ \<Rightarrow> None)"

text \<open>
  Modelled from the spec: the propagator's \<^verbatim>\<open>Inject\<close> attaches the trace context of the
  current span to the headers of an outbound call; without a valid span context it
  leaves the headers alone.
\<close>

definition Inject :: "go_context \<Rightarrow> header \<Rightarrow> header" where
  "Inject ctx carrier =
     (case SpanContextFromContext ctx of
        None \<Rightarrow> carrier
      | Some sc \<Rightarrow>
          if IsValid sc then carrier(traceparent \<mapsto> format_traceparent sc) else carrier)"

text \<open>
  Modelled from the spec: the propagator's \<^verbatim>\<open>Extract\<close> reads the trace context from the
  headers of an inbound request; without a readable header the context is unchanged.
\<close>

definition Extract :: "go_context \<Rightarrow> header \<Rightarrow> go_context" where
  "Extract ctx carrier =
     (case carrier traceparent of
        None \<Rightarrow> ctx
      | Some v \<Rightarrow>
          (case parse_traceparent v of
             None \<Rightarrow> ctx
           | Some sc \<Rightarrow> ctx\<lparr>SpanContextFromContext := Some sc\<rparr>))"

section \<open>The lookup service\<close>

subsection \<open>The client of the two providers\<close>

text \<open>
  \<^verbatim>\<open>IApiClient\<close>, the interface the handlers call, and \<^verbatim>\<open>ApiClient\<close>, its implementation
  over an HTTP \<^verbatim>\<open>GET\<close> function and the key of the weather provider.
\<close>

record IApiClient =
  getCityByCEP :: "string \<Rightarrow> error + string"
  getTemperatureByCity :: "string \<Rightarrow> error + float64"

record ApiClient =
  httpGet :: "string \<Rightarrow> error + client_response"
  wheatherApiKey :: string

definition NewClient :: "(string \<Rightarrow> error + client_response) \<Rightarrow> string \<Rightarrow> ApiClient" where
  "NewClient get key = \<lparr>httpGet = get, wheatherApiKey = key\<rparr>"

text \<open>
  \<^verbatim>\<open>url.QueryEscape\<close>: letters, digits and \<^verbatim>\<open>-_.~\<close> stay, a space becomes \<^verbatim>\<open>+\<close>, any other
  byte becomes \<^verbatim>\<open>%\<close> and its two upper-case hexadecimal digits.
\<close>

definition unreserved :: "char \<Rightarrow> bool" where
  "unreserved c =
     (let n = (of_char c :: nat)
      in (97 \<le> n \<and> n \<le> 122) \<or> (65 \<le> n \<and> n \<le> 90) \<or> (48 \<le> n \<and> n \<le> 57)
         \<or> c \<in> set ''-_.~'')"

definition upperhex :: "nat \<Rightarrow> char" where
  "upperhex n = ''0123456789ABCDEF'' ! (n mod 16)"

fun QueryEscape :: "string \<Rightarrow> string" where
  "QueryEscape [] = []"
| "QueryEscape (c # cs) =
     (if unreserved c then c # QueryEscape cs
      else if c = CHR '' '' then CHR ''+'' # QueryEscape cs
      else CHR ''%'' # upperhex (of_char c div 16) # upperhex (of_char c mod 16)
             # QueryEscape cs)"

text \<open>
  Both methods drop the error of \<^verbatim>\<open>io.ReadAll\<close> and decode the bytes they got; neither
  looks at the status of the response.
\<close>

definition ApiClient_getCityByCEP :: "ApiClient \<Rightarrow> string \<Rightarrow> error + string" where
  "ApiClient_getCityByCEP c cep =
     (case httpGet c (''https://viacep.com.br/ws/'' @ cep @ ''/json/'') of
        Inl err \<Rightarrow> Inl err
      | Inr resp \<Rightarrow>
          (let body = Data resp
           in case Unmarshal ViaCEPResponse_members body zero_ViaCEPResponse of
                Inl err \<Rightarrow> Inl err
              | Inr viaCEP \<Rightarrow>
                  if Erro viaCEP \<or> Localidade viaCEP = [] then Inl ErrNotFound
                  else Inr (Localidade viaCEP)))"

definition ApiClient_getTemperatureByCity :: "ApiClient \<Rightarrow> string \<Rightarrow> error + float64" where
  "ApiClient_getTemperatureByCity c city =
     (let url = ''https://api.weatherapi.com/v1/current.json?key='' @ wheatherApiKey c
                  @ ''&q='' @ QueryEscape city
      in case httpGet c url of
           Inl err \<Rightarrow> Inl err
         | Inr resp \<Rightarrow>
             (let body = Data resp
              in case Unmarshal WeatherAPIResponse_members body zero_WeatherAPIResponse of
                   Inl err \<Rightarrow> Inl err
                 | Inr weather \<Rightarrow> Inr (temp_c (Current weather))))"

text \<open>\<^verbatim>\<open>*ApiClient\<close> as an \<^verbatim>\<open>IApiClient\<close>.\<close>

definition as_IApiClient :: "ApiClient \<Rightarrow> IApiClient" where
  "as_IApiClient c =
     \<lparr>getCityByCEP = ApiClient_getCityByCEP c,
      getTemperatureByCity = ApiClient_getTemperatureByCity c\<rparr>"

subsection \<open>The handlers\<close>

text \<open>
  A handler returns, with its response, the calls it made to the client, in order, so
  that a call that is not made can be told from one whose result is not used.
\<close>

datatype api_call = CallGetCityByCEP string | CallGetTemperatureByCity string

text \<open>The record both handlers build from the locality and its temperature.\<close>

definition aggregate :: "bool \<Rightarrow> string \<Rightarrow> float64 \<Rightarrow> WeatherResponse" where
  "aggregate fused city tempC =
     \<lparr>City = city,
      TempC = tempC,
      TempF = mul_add fused tempC (f64_const 1.8) (f64_const 32),
      TempK = f64_add tempC (f64_const 273)\<rparr>"

text \<open>
  The handler of the untraced lookup service (it also prints the error of the
  temperature lookup, which is not part of its response).
\<close>

definition weatherHandler_untraced ::
  "bool \<Rightarrow> IApiClient \<Rightarrow> request \<Rightarrow> response \<times> api_call list" where
  "weatherHandler_untraced fused apiClient r =
     (let cep = Get (Query r) ''cep''
      in if \<not> isValidCEP cep then
           (http_Error ''invalid zipcode'' StatusUnprocessableEntity, [])
         else
           (case getCityByCEP apiClient cep of
              Inl err \<Rightarrow>
                (http_Error ''can not find zipcode'' StatusNotFound, [CallGetCityByCEP cep])
            | Inr city \<Rightarrow>
                (case getTemperatureByCity apiClient city of
                   Inl err \<Rightarrow>
                     (http_Error ''can not find temperature'' StatusNotFound,
                      [CallGetCityByCEP cep, CallGetTemperatureByCity city])
                 | Inr tempC \<Rightarrow>
                     (let resp = aggregate fused city tempC
                      in (Encode resp,
                          [CallGetCityByCEP cep, CallGetTemperatureByCity city])))))"

text \<open>The handler of the traced lookup service, \<^verbatim>\<open>service_b\<close>.\<close>

record WeatherHandler =
  apiClient :: IApiClient
  tracer :: tracer

definition NewWeatherHandler :: "IApiClient \<Rightarrow> tracer \<Rightarrow> WeatherHandler" where
  "NewWeatherHandler c t = \<lparr>apiClient = c, tracer = t\<rparr>"

definition weatherHandler ::
  "bool \<Rightarrow> WeatherHandler \<Rightarrow> request \<Rightarrow> trace_state \<Rightarrow>
     response \<times> api_call list \<times> trace_state" where
  "weatherHandler fused wh r st0 =
     (let carrier = Header r;
          ctx = Extract Background carrier;
          ((ctx, span), st) = Start (tracer wh) ctx ''Validate inputs'' st0;
          cep = Get (Query r) ''cep''
      in if \<not> IsValidCEP cep then
           (http_Error ''invalid zipcode'' StatusUnprocessableEntity, [],
            End span (SetStatus span (Error ''invalid zipcode'') st))
         else
           (let st = End span st;
                ((ctx, span), st) = Start (tracer wh) ctx ''Get City from Zipcode'' st
            in case getCityByCEP (apiClient wh) cep of
                 Inl err \<Rightarrow>
                   (http_Error ''can not find zipcode'' StatusNotFound,
                    [CallGetCityByCEP cep],
                    End span (SetStatus span (Error ''can not find zipcode'')
                      (RecordError span err st)))
               | Inr city \<Rightarrow>
                   (let st = End span st;
                        ((ctx, span), st) = Start (tracer wh) ctx ''Get City temperature'' st
                    in case getTemperatureByCity (apiClient wh) city of
                         Inl err \<Rightarrow>
                           (http_Error ''can not find temperature'' StatusNotFound,
                            [CallGetCityByCEP cep, CallGetTemperatureByCity city],
                            End span (SetStatus span (Error ''can not find temperature'')
                              (RecordError span err st)))
                       | Inr tempC \<Rightarrow>
                           (let resp = aggregate fused city tempC
                            in (Encode resp,
                                [CallGetCityByCEP cep, CallGetTemperatureByCity city],
                                End span st)))))"

section \<open>The gateway, \<^verbatim>\<open>service_a\<close>\<close>

text \<open>
  What the gateway reads from outside: the address of the lookup service in its
  configuration, whether \<^verbatim>\<open>http.NewRequestWithContext\<close> accepts a URL, and the outcome of
  \<^verbatim>\<open>http.DefaultClient.Do\<close>, which is an error when the call fails at the transport
  level or exceeds the five seconds of its context, and the response otherwise.
\<close>

record runtime =
  WEATHER_SERVICE :: string
  url_error :: "string \<Rightarrow> error option"
  Do :: "client_request \<Rightarrow> error + client_response"

record WebServer =
  Tracer :: tracer

text \<open>
  \<^verbatim>\<open>getTemperatura\<close> returns, with its result, the outbound requests it has sent.
\<close>

definition getTemperatura ::
  "runtime \<Rightarrow> go_context \<Rightarrow> Entrada \<Rightarrow> (error + WeatherResponse) \<times> client_request list" where
  "getTemperatura rt tracectx entrada =
     (let ctx = tracectx;
          url = WEATHER_SERVICE rt @ ''/weather?cep='' @ CEP entrada
      in case url_error rt url of
           Some err \<Rightarrow> (Inl err, [])
         | None \<Rightarrow>
             (let req = \<lparr>Method = ''GET'', URL = url, ReqHeader = Inject ctx Map.empty\<rparr>
              in case Do rt req of
                   Inl err \<Rightarrow> (Inl err, [req])
                 | Inr res \<Rightarrow>
                     (case ReadErr res of
                        Some err \<Rightarrow> (Inl err, [req])
                      | None \<Rightarrow>
                          (case Unmarshal WeatherResponse_members (Data res)
                                  zero_WeatherResponse of
                             Inl err \<Rightarrow> (Inl err, [req])
                           | Inr response \<Rightarrow> (Inr response, [req])))))"

definition payload_invalido :: string where
  "payload_invalido = ''payload inv'' @ [CHR 0xC3, CHR 0xA1] @ ''lido''"

definition handleRequest ::
  "WebServer \<Rightarrow> runtime \<Rightarrow> request \<Rightarrow> trace_state \<Rightarrow>
     response \<times> client_request list \<times> trace_state" where
  "handleRequest ws rt r st0 =
     (let carrier = Header r;
          ctx = Extract Background carrier;
          ((ctx, spanValidation), st) = Start (Tracer ws) ctx ''Validate inputs'' st0
      in case Decode Entrada_members (Body r) zero_Entrada of
           Inl err \<Rightarrow>
             (http_Error payload_invalido StatusBadRequest, [],
              End spanValidation (SetStatus spanValidation (Error payload_invalido)
                (RecordError spanValidation err st)))
         | Inr entrada \<Rightarrow>
             if \<not> IsValidCEP (CEP entrada) then
               (http_Error ''invalid zipcode'' StatusUnprocessableEntity, [],
                End spanValidation (SetStatus spanValidation (Error ''invalid zipcode'') st))
             else
               (let st = End spanValidation st;
                    ((ctx, span), st) = Start (Tracer ws) ctx ''Call to service_b'' st;
                    (result, sent) = getTemperatura rt ctx entrada
                in case result of
                     Inl err \<Rightarrow>
                       (http_Error ''Falha para recuperar os dados'' StatusInternalServerError,
                        sent,
                        End span (SetStatus span (Error ''Falha para recuperar os dados'')
                          (RecordError span err st)))
                   | Inr response \<Rightarrow> (Encode response, sent, End span st)))"

section \<open>Example inputs\<close>

text \<open>
  Concrete requests, providers and tracers, on which the properties below are also
  evaluated. The tracer draws well-formed identifiers; the downstream of the gateway
  gives the same outcome to every request.
\<close>

definition example_tracer :: tracer where
  "example_tracer =
     \<lparr>NewTraceID = (\<lambda>n. ''4bf92f3577b34da6a3ce929d0e0e4736''),
      NewSpanID = (\<lambda>n. if even n then ''00f067aa0ba902b7'' else ''b7ad6b7169203331''),
      SampleRoot = True\<rparr>"

definition example_WebServer :: WebServer where
  "example_WebServer = \<lparr>Tracer = example_tracer\<rparr>"

definition no_spans :: trace_state where
  "no_spans = \<lparr>Drawn = 0, Spans = []\<rparr>"

definition Sao_Paulo :: string where
  "Sao_Paulo = ''S'' @ [CHR 0xC3, CHR 0xA3] @ ''o Paulo''"

text \<open>A \<^verbatim>\<open>POST /\<close> with the given JSON body, a \<^verbatim>\<open>GET /weather?cep=...\<close> with the given headers.\<close>

definition post_body :: "json \<Rightarrow> request" where
  "post_body v = \<lparr>Header = Map.empty, Query = [], Body = Some v\<rparr>"

definition post_cep :: "string \<Rightarrow> request" where
  "post_cep cep = post_body (JObject [(''cep'', JString cep)])"

definition get_weather :: "header \<Rightarrow> string \<Rightarrow> request" where
  "get_weather h cep = \<lparr>Header = h, Query = [(''cep'', cep)], Body = None\<rparr>"

definition downstream :: "error + client_response \<Rightarrow> runtime" where
  "downstream outcome =
     \<lparr>WEATHER_SERVICE = ''http://service_b:8080'', url_error = (\<lambda>u. None),
      Do = (\<lambda>req. outcome)\<rparr>"

definition answer :: "nat \<Rightarrow> payload \<Rightarrow> error + client_response" where
  "answer code body = Inr \<lparr>Status = code, Data = body, ReadErr = None\<rparr>"

definition fixed_client :: "error + string \<Rightarrow> error + float64 \<Rightarrow> IApiClient" where
  "fixed_client city temp =
     \<lparr>getCityByCEP = (\<lambda>cep. city), getTemperatureByCity = (\<lambda>c. temp)\<rparr>"

text \<open>
  Two providers behind one \<^verbatim>\<open>GET\<close> function: the address provider answers the first
  body, the weather provider the second.
\<close>

definition providers :: "payload \<Rightarrow> payload \<Rightarrow> ApiClient" where
  "providers address weather =
     NewClient
       (\<lambda>url. Inr \<lparr>Status = 200,
                   Data = (if take 25 url = ''https://viacep.com.br/ws/'' then address
                           else weather),
                   ReadErr = None\<rparr>)
       ''key''"

text \<open>A second tracer, with identifiers of its own.\<close>

definition other_tracer :: tracer where
  "other_tracer =
     \<lparr>NewTraceID = (\<lambda>n. ''0af7651916cd43dd8448eb211c80319c''),
      NewSpanID = (\<lambda>n. ''53995c3f42cd8ad8''),
      SampleRoot = True\<rparr>"

text \<open>The bodies of scenario A: the answer of the address provider, the record.\<close>

definition address_found :: json where
  "address_found =
     JObject [(''cep'', JString ''01001-000''), (''localidade'', JString Sao_Paulo)]"

definition example_record :: json where
  "example_record =
     JObject [(''city'', JString Sao_Paulo), (''temp_C'', JNumber 25),
              (''temp_F'', JNumber 77), (''temp_K'', JNumber 298)]"

section \<open>Auxiliary notions\<close>

text \<open>
  The context that \<^verbatim>\<open>handleRequest\<close> passes to \<^verbatim>\<open>getTemperatura\<close>: the one returned by
  the start of the span of the outbound call.
\<close>

definition call_context :: "WebServer \<Rightarrow> request \<Rightarrow> trace_state \<Rightarrow> go_context" where
  "call_context ws r st0 =
     (let ((ctx, spanValidation), st) =
            Start (Tracer ws) (Extract Background (Header r)) ''Validate inputs'' st0
      in fst (fst (Start (Tracer ws) ctx ''Call to service_b'' (End spanValidation st))))"

text \<open>What the operations on a span never change: its name, its context, its parent.\<close>

definition skeleton :: "trace_state \<Rightarrow> (string \<times> span_context \<times> span_context option) list" where
  "skeleton st = map (\<lambda>sp. (Name sp, Context sp, Parent sp)) (Spans st)"

section \<open>Properties of the validator\<close>

lemma in_class_digit: "in_class [(CHR ''0'', CHR ''9'')] c = is_digit c"
  by (cases c) (simp add: in_class_def is_digit_def)

lemma step_repeat_class:
  "i \<le> length s \<Longrightarrow> step (Repeat n (CharClass rs)) s i =
     (if i + n \<le> length s \<and> (\<forall>j<n. in_class rs (s ! (i + j))) then [i + n] else [])"
proof (induction n arbitrary: i)
  case 0
  then show ?case by simp
next
  case (Suc n)
  have "(\<forall>j<Suc n. in_class rs (s ! (i + j))) \<longleftrightarrow>
        in_class rs (s ! i) \<and> (\<forall>j<n. in_class rs (s ! (Suc i + j)))"
    by (auto simp: less_Suc_eq_0_disj)
  with Suc show ?case by auto
qed

lemma step_cep_pattern:
  "i \<le> length s \<Longrightarrow> step cep_pattern s i \<noteq> [] \<longleftrightarrow>
     i = 0 \<and> length s = 8 \<and> (\<forall>j<8. is_digit (s ! j))"
  by (auto simp: cep_pattern_def step_repeat_class in_class_digit)

lemma MatchString_cep_pattern:
  "MatchString cep_pattern s \<longleftrightarrow> length s = 8 \<and> (\<forall>c\<in>set s. is_digit c)"
proof -
  have "MatchString cep_pattern s \<longleftrightarrow> (\<exists>i\<le>length s. step cep_pattern s i \<noteq> [])"
    unfolding MatchString_def list_ex_iff by (auto simp: Bex_def le_less)
  also have "\<dots> \<longleftrightarrow> (\<exists>i\<le>length s. i = 0 \<and> length s = 8 \<and> (\<forall>j<8. is_digit (s ! j)))"
    using step_cep_pattern [of _ s] by blast
  also have "\<dots> \<longleftrightarrow> length s = 8 \<and> (\<forall>j<8. is_digit (s ! j))"
    by auto
  also have "\<dots> \<longleftrightarrow> length s = 8 \<and> (\<forall>c\<in>set s. is_digit c)"
    by (auto simp: all_set_conv_all_nth)
  finally show ?thesis .
qed

lemma IsValidCEP_digits:
  "IsValidCEP cep \<longleftrightarrow> length cep = 8 \<and> (\<forall>c\<in>set cep. is_digit c)"
  by (simp add: IsValidCEP_def MatchString_cep_pattern)

text \<open>
  Claim C1. The validator \<open>IsValidCEP\<close>, and its copy \<open>isValidCEP\<close> in the untraced
  lookup service, accept a string if and only if it consists of exactly eight decimal
  digits: every such string is accepted, and a string of another length (the empty one
  included) or with a character that is not a decimal digit is rejected.
\<close>

theorem C1_validator_eight_digits:
  "(IsValidCEP cep \<longleftrightarrow> length cep = 8 \<and> (\<forall>c\<in>set cep. is_digit c)) \<and>
   (isValidCEP cep \<longleftrightarrow> length cep = 8 \<and> (\<forall>c\<in>set cep. is_digit c))"
  by (simp add: IsValidCEP_def isValidCEP_def MatchString_cep_pattern)

text \<open>
  Claim C1 at the postal code of scenario A, at \<^verbatim>\<open>123\<close> of scenario B, at eight characters
  with a letter, at the empty string and at nine digits.
\<close>

theorem C1_validator_eight_digits_witness:
  "IsValidCEP ''01001000'' \<and> isValidCEP ''01001000'' \<and>
   \<not> IsValidCEP ''123'' \<and> \<not> isValidCEP ''0100100a'' \<and> \<not> IsValidCEP [] \<and>
   \<not> isValidCEP ''010010001''"
  using C1_validator_eight_digits [of "''01001000''"] C1_validator_eight_digits [of "''123''"]
    C1_validator_eight_digits [of "''0100100a''"] C1_validator_eight_digits [of "[]"]
    C1_validator_eight_digits [of "''010010001''"]
  by (simp add: is_digit_def)

section \<open>Evaluating the arithmetic\<close>

lemma floor_numeral_div_rat:
  "\<lfloor>(numeral a :: rat) / numeral b\<rfloor> = numeral a div numeral b"
  by (metis floor_divide_of_int_eq of_int_numeral)

lemmas round64_eval =
  round64_def Let_def pow2_def round_half_even_def floor_numeral_div_rat

lemma floor_log2_9_5: "floor_log2 (9 / 5) = 0"
  by code_simp

lemma floor_log2_32: "floor_log2 32 = 5"
  by code_simp

lemma floor_log2_273: "floor_log2 273 = 8"
  by code_simp

lemma floor_log2_25: "floor_log2 25 = 4"
  by code_simp

lemma floor_log2_77: "floor_log2 77 = 6"
  by code_simp

lemma floor_log2_298: "floor_log2 298 = 8"
  by code_simp

lemma floor_log2_product:
  "floor_log2 (202661983231672325 / 4503599627370496) = 5"
  by code_simp

lemma floor_log2_fused:
  "floor_log2 (346777171307528197 / 4503599627370496) = 6"
  by code_simp

lemma round64_0: "round64 0 = Finite 0"
  by (simp add: round64_def)

lemma round64_9_5: "round64 (9 / 5) = Finite (8106479329266893 / 4503599627370496)"
  by (simp add: floor_log2_9_5 round64_eval)

lemma round64_32: "round64 32 = Finite 32"
  by (simp add: floor_log2_32 round64_eval)

lemma round64_273: "round64 273 = Finite 273"
  by (simp add: floor_log2_273 round64_eval)

lemma round64_25: "round64 25 = Finite 25"
  by (simp add: floor_log2_25 round64_eval)

lemma round64_77: "round64 77 = Finite 77"
  by (simp add: floor_log2_77 round64_eval)

lemma round64_298: "round64 298 = Finite 298"
  by (simp add: floor_log2_298 round64_eval)

lemma round64_product: "round64 (202661983231672325 / 4503599627370496) = Finite 45"
  by (simp add: floor_log2_product round64_eval)

lemma round64_fused: "round64 (346777171307528197 / 4503599627370496) = Finite 77"
  by (simp add: floor_log2_fused round64_eval)

lemma mul_add_25_norm:
  "mul_add fused (Finite 25) (f64_const (9 / 5)) (f64_const 32) = Finite 77"
  by (simp add: mul_add_def f64_mul_def f64_const_def round64_9_5
      round64_32 round64_product round64_fused round64_77)

lemma mul_add_25: "mul_add fused (Finite 25) (f64_const 1.8) (f64_const 32) = Finite 77"
  by (simp add: mul_add_25_norm)

lemma f64_add_25: "f64_add (Finite 25) (f64_const 273) = Finite 298"
  by (simp add: f64_const_def round64_273 round64_298)

lemma aggregate_zero:
  "aggregate fused city (Finite 0) =
     \<lparr>City = city, TempC = Finite 0, TempF = Finite 32, TempK = Finite 273\<rparr>"
  by (simp add: aggregate_def mul_add_def f64_mul_def f64_const_def round64_9_5
      round64_0 round64_32 round64_273)

section \<open>Decoding\<close>

lemma Entrada_members_no_field:
  "\<forall>(k, v)\<in>set kvs. \<not> is_field ''cep'' k \<Longrightarrow> Entrada_members kvs e = Inr e"
  by (induction kvs) auto

lemma store_float64_finite:
  "store_float64 v old = Inr x \<Longrightarrow> is_finite old \<Longrightarrow> is_finite x"
proof (cases v)
  case (JNumber q)
  assume "store_float64 v old = Inr x"
  with JNumber show ?thesis by (cases "round64 q") auto
qed auto

lemma WeatherResponse_members_encodable:
  "WeatherResponse_members kvs w = Inr w' \<Longrightarrow> encodable w \<Longrightarrow> encodable w'"
proof (induction kvs arbitrary: w)
  case Nil
  then show ?case by simp
next
  case (Cons kv kvs)
  obtain k v where kv: "kv = (k, v)" by (cases kv)
  have city: "encodable (w\<lparr>City := s\<rparr>)" for s
    using Cons.prems(2) by (simp add: encodable_def)
  have tc: "encodable (w\<lparr>TempC := x\<rparr>)" if "store_float64 v (TempC w) = Inr x" for x
    using Cons.prems(2) store_float64_finite [OF that] by (simp add: encodable_def)
  have tf: "encodable (w\<lparr>TempF := x\<rparr>)" if "store_float64 v (TempF w) = Inr x" for x
    using Cons.prems(2) store_float64_finite [OF that] by (simp add: encodable_def)
  have tk: "encodable (w\<lparr>TempK := x\<rparr>)" if "store_float64 v (TempK w) = Inr x" for x
    using Cons.prems(2) store_float64_finite [OF that] by (simp add: encodable_def)
  from Cons.prems show ?case
    unfolding kv
    by (auto split: if_splits sum.splits intro: Cons.IH city tc tf tk)
qed

lemma Unmarshal_WeatherResponse_encodable:
  "Unmarshal WeatherResponse_members d zero_WeatherResponse = Inr w \<Longrightarrow> encodable w"
  by (auto simp: Unmarshal_def Decode_def into_struct_def zero_WeatherResponse_def encodable_def
      split: option.splits json.splits dest!: WeatherResponse_members_encodable)

lemma Current_members_no_field:
  "\<forall>(k, v)\<in>set ms. \<not> is_field ''temp_c'' k \<Longrightarrow> Current_members ms c = Inr c"
  by (induction ms) auto

lemma WeatherAPIResponse_members_no_temp_c:
  "\<forall>(k, v)\<in>set kvs. is_field ''current'' k \<longrightarrow>
      (\<exists>ms. v = JObject ms \<and> (\<forall>(k', v')\<in>set ms. \<not> is_field ''temp_c'' k'))
   \<Longrightarrow> WeatherAPIResponse_members kvs w = Inr w"
  by (induction kvs) (auto simp: into_struct_def Current_members_no_field)

lemma decode_post_cep:
  "Decode Entrada_members (Body (post_cep cep)) zero_Entrada = Inr \<lparr>CEP = cep\<rparr>"
  by (simp add: post_cep_def post_body_def Unmarshal_def Decode_def into_struct_def is_field_def
      fold_ascii_def zero_Entrada_def)

lemma decode_example_record:
  "Unmarshal WeatherResponse_members (Some example_record) zero_WeatherResponse =
     Inr \<lparr>City = Sao_Paulo, TempC = Finite 25, TempF = Finite 77, TempK = Finite 298\<rparr>"
  by (simp add: example_record_def Unmarshal_def Decode_def into_struct_def is_field_def fold_ascii_def
      zero_WeatherResponse_def round64_25 round64_77 round64_298)

lemma digits_01001000: "length ''01001000'' = 8 \<and> (\<forall>c\<in>set ''01001000''. is_digit c)"
  by (simp add: is_digit_def)

lemma all_digits_01001000: "list_all is_digit ''01001000''"
  by (simp add: is_digit_def)

lemma triple: "x = (fst x, fst (snd x), snd (snd x))"
  by simp

section \<open>Properties of the lookup handlers\<close>

lemma isValidCEP_digits:
  "isValidCEP cep \<longleftrightarrow> length cep = 8 \<and> (\<forall>c\<in>set cep. is_digit c)"
  by (simp add: isValidCEP_def MatchString_cep_pattern)

lemma untraced_response:
  "fst (weatherHandler_untraced fused c r) =
     (let cep = Get (Query r) ''cep'' in
      if \<not> isValidCEP cep then http_Error ''invalid zipcode'' StatusUnprocessableEntity
      else case getCityByCEP c cep of
             Inl err \<Rightarrow> http_Error ''can not find zipcode'' StatusNotFound
           | Inr city \<Rightarrow> (case getTemperatureByCity c city of
                Inl err \<Rightarrow> http_Error ''can not find temperature'' StatusNotFound
              | Inr tempC \<Rightarrow> Encode (aggregate fused city tempC)))"
  by (simp add: weatherHandler_untraced_def Let_def split: sum.splits)

lemma untraced_calls:
  "snd (weatherHandler_untraced fused c r) =
     (let cep = Get (Query r) ''cep'' in
      if \<not> isValidCEP cep then []
      else case getCityByCEP c cep of
             Inl err \<Rightarrow> [CallGetCityByCEP cep]
           | Inr city \<Rightarrow> [CallGetCityByCEP cep, CallGetTemperatureByCity city])"
  by (simp add: weatherHandler_untraced_def Let_def split: sum.splits)

lemma traced_response:
  "fst (weatherHandler fused wh r st) =
     (let cep = Get (Query r) ''cep'' in
      if \<not> IsValidCEP cep then http_Error ''invalid zipcode'' StatusUnprocessableEntity
      else case getCityByCEP (apiClient wh) cep of
             Inl err \<Rightarrow> http_Error ''can not find zipcode'' StatusNotFound
           | Inr city \<Rightarrow> (case getTemperatureByCity (apiClient wh) city of
                Inl err \<Rightarrow> http_Error ''can not find temperature'' StatusNotFound
              | Inr tempC \<Rightarrow> Encode (aggregate fused city tempC)))"
  by (simp add: weatherHandler_def Let_def split_beta split: sum.splits)

lemma traced_calls:
  "fst (snd (weatherHandler fused wh r st)) =
     (let cep = Get (Query r) ''cep'' in
      if \<not> IsValidCEP cep then []
      else case getCityByCEP (apiClient wh) cep of
             Inl err \<Rightarrow> [CallGetCityByCEP cep]
           | Inr city \<Rightarrow> [CallGetCityByCEP cep, CallGetTemperatureByCity city])"
  by (simp add: weatherHandler_def Let_def split_beta split: sum.splits)

lemma get_weather_cep: "Get (Query (get_weather h cep)) ''cep'' = cep"
  by (simp add: get_weather_def Get_def)

text \<open>
  Claim C3. When the postal code of the request is valid, the locality resolves to
  \<open>city\<close> and the temperature to \<open>t\<close>, both lookup handlers build the record with
  \<open>TempC = t\<close>, \<open>TempF = t * 1.8 + 32\<close> and \<open>TempK = t + 273\<close>, the three of them
  derived from \<open>t\<close> alone, and answer 200 with its JSON encoding. The arithmetic is that
  of \<^verbatim>\<open>float64\<close>: the constants are converted to \<^verbatim>\<open>float64\<close> and the product and the sums
  are rounded as the build rounds them. (When a derived field has overflowed to an
  infinity, the encoder writes nothing and the answer is an empty 200.)
\<close>

theorem C3_derived_temperatures:
  assumes "cep = Get (Query r) ''cep''"
    and "length cep = 8" and "\<forall>c\<in>set cep. is_digit c"
    and "getCityByCEP c cep = Inr city" and "getTemperatureByCity c city = Inr t"
    and "resp = \<lparr>City = city, TempC = t,
                  TempF = mul_add fused t (f64_const 1.8) (f64_const 32),
                  TempK = f64_add t (f64_const 273)\<rparr>"
  shows "fst (weatherHandler fused \<lparr>apiClient = c, tracer = tr\<rparr> r st) =
           \<lparr>StatusCode = StatusOK, ContentType = ''application/json'',
            Content = (if encodable resp then JSON resp else NoContent)\<rparr> \<and>
         fst (weatherHandler_untraced fused c r) =
           \<lparr>StatusCode = StatusOK, ContentType = ''application/json'',
            Content = (if encodable resp then JSON resp else NoContent)\<rparr>"
  using assms
  by (simp add: traced_response untraced_response IsValidCEP_digits isValidCEP_digits
      Encode_def aggregate_def)

text \<open>
  Claim C3 at the inputs of scenario A of the specification: postal code 01001000,
  the locality Sao Paulo (its second letter in UTF-8), 25 degrees Celsius; the answer carries 77 and 298.
\<close>

theorem C3_derived_temperatures_witness:
  "''01001000'' = Get (Query (get_weather Map.empty ''01001000'')) ''cep'' \<and>
   length ''01001000'' = 8 \<and> list_all is_digit ''01001000'' \<and>
   fst (weatherHandler False
          \<lparr>apiClient = fixed_client (Inr Sao_Paulo) (Inr (Finite 25)), tracer = example_tracer\<rparr>
          (get_weather Map.empty ''01001000'') no_spans) =
     \<lparr>StatusCode = StatusOK, ContentType = ''application/json'',
      Content = JSON \<lparr>City = Sao_Paulo, TempC = Finite 25, TempF = Finite 77,
                       TempK = Finite 298\<rparr>\<rparr> \<and>
   fst (weatherHandler_untraced False (fixed_client (Inr Sao_Paulo) (Inr (Finite 25)))
          (get_weather Map.empty ''01001000'')) =
     \<lparr>StatusCode = StatusOK, ContentType = ''application/json'',
      Content = JSON \<lparr>City = Sao_Paulo, TempC = Finite 25, TempF = Finite 77,
                       TempK = Finite 298\<rparr>\<rparr>"
proof -
  have cep: "''01001000'' = Get (Query (get_weather Map.empty ''01001000'')) ''cep''"
    by (simp add: get_weather_cep)
  have len: "length ''01001000'' = 8" and dig: "\<forall>c\<in>set ''01001000''. is_digit c"
    using digits_01001000 by simp_all
  have city: "getCityByCEP (fixed_client (Inr Sao_Paulo) (Inr (Finite 25))) ''01001000'' =
      Inr Sao_Paulo"
    and temp: "getTemperatureByCity (fixed_client (Inr Sao_Paulo) (Inr (Finite 25))) Sao_Paulo =
      Inr (Finite 25)"
    by (simp_all add: fixed_client_def)
  show ?thesis
    using C3_derived_temperatures [where fused = False and tr = example_tracer
        and st = no_spans, OF cep len dig city temp refl] cep len all_digits_01001000
    by (simp add: mul_add_25_norm mul_add_25 f64_add_25 encodable_def)
qed

text \<open>
  Claim C4. For a request with a valid postal code, in both lookup handlers: when
  \<open>getCityByCEP\<close> returns an error, the answer is 404 and \<open>getTemperatureByCity\<close> is not
  called; when \<open>getCityByCEP\<close> succeeds and \<open>getTemperatureByCity\<close> returns an error, the
  answer is 404 as well.
\<close>

theorem C4_lookup_failures_are_404:
  assumes "cep = Get (Query r) ''cep''"
    and "length cep = 8" and "\<forall>c\<in>set cep. is_digit c"
    and "wh = \<lparr>apiClient = c, tracer = tr\<rparr>"
  shows "(\<forall>err. getCityByCEP c cep = Inl err \<longrightarrow>
            StatusCode (fst (weatherHandler fused wh r st)) = StatusNotFound \<and>
            (\<forall>city. CallGetTemperatureByCity city \<notin> set (fst (snd (weatherHandler fused wh r st)))) \<and>
            StatusCode (fst (weatherHandler_untraced fused c r)) = StatusNotFound \<and>
            (\<forall>city. CallGetTemperatureByCity city \<notin> set (snd (weatherHandler_untraced fused c r)))) \<and>
         (\<forall>city err. getCityByCEP c cep = Inr city \<and> getTemperatureByCity c city = Inl err \<longrightarrow>
            StatusCode (fst (weatherHandler fused wh r st)) = StatusNotFound \<and>
            StatusCode (fst (weatherHandler_untraced fused c r)) = StatusNotFound)"
  using assms
  by (auto simp: traced_response traced_calls untraced_response untraced_calls
      IsValidCEP_digits isValidCEP_digits http_Error_def)

text \<open>
  Claim C4 at a client whose address lookup fails, and at one whose temperature lookup
  fails.
\<close>

theorem C4_lookup_failures_are_404_witness:
  "''01001000'' = Get (Query (get_weather Map.empty ''01001000'')) ''cep'' \<and>
   length ''01001000'' = 8 \<and> list_all is_digit ''01001000'' \<and>
   StatusCode (fst (weatherHandler False
       \<lparr>apiClient = fixed_client (Inl ErrNotFound) (Inr (Finite 25)), tracer = example_tracer\<rparr>
       (get_weather Map.empty ''01001000'') no_spans)) = StatusNotFound \<and>
   CallGetTemperatureByCity Sao_Paulo \<notin> set (fst (snd (weatherHandler False
       \<lparr>apiClient = fixed_client (Inl ErrNotFound) (Inr (Finite 25)), tracer = example_tracer\<rparr>
       (get_weather Map.empty ''01001000'') no_spans))) \<and>
   StatusCode (fst (weatherHandler_untraced False
       (fixed_client (Inr Sao_Paulo) (Inl TransportError))
       (get_weather Map.empty ''01001000''))) = StatusNotFound"
proof -
  have cep: "''01001000'' = Get (Query (get_weather Map.empty ''01001000'')) ''cep''"
    by (simp add: get_weather_cep)
  have len: "length ''01001000'' = 8" and dig: "\<forall>c\<in>set ''01001000''. is_digit c"
    using digits_01001000 by simp_all
  note not_found = C4_lookup_failures_are_404 [where fused = False and st = no_spans
      and c = "fixed_client (Inl ErrNotFound) (Inr (Finite 25))" and tr = example_tracer,
      OF cep len dig refl]
  note no_temp = C4_lookup_failures_are_404 [where fused = False and st = no_spans
      and c = "fixed_client (Inr Sao_Paulo) (Inl TransportError)" and tr = example_tracer,
      OF cep len dig refl]
  have "getCityByCEP (fixed_client (Inl ErrNotFound) (Inr (Finite 25))) ''01001000'' =
      Inl ErrNotFound"
    by (simp add: fixed_client_def)
  with not_found have 1: "StatusCode (fst (weatherHandler False
       \<lparr>apiClient = fixed_client (Inl ErrNotFound) (Inr (Finite 25)), tracer = example_tracer\<rparr>
       (get_weather Map.empty ''01001000'') no_spans)) = StatusNotFound \<and>
     CallGetTemperatureByCity Sao_Paulo \<notin> set (fst (snd (weatherHandler False
       \<lparr>apiClient = fixed_client (Inl ErrNotFound) (Inr (Finite 25)), tracer = example_tracer\<rparr>
       (get_weather Map.empty ''01001000'') no_spans)))"
    by blast
  have "getCityByCEP (fixed_client (Inr Sao_Paulo) (Inl TransportError)) ''01001000'' =
      Inr Sao_Paulo \<and>
    getTemperatureByCity (fixed_client (Inr Sao_Paulo) (Inl TransportError)) Sao_Paulo =
      Inl TransportError"
    by (simp add: fixed_client_def)
  with no_temp have 2: "StatusCode (fst (weatherHandler_untraced False
       (fixed_client (Inr Sao_Paulo) (Inl TransportError))
       (get_weather Map.empty ''01001000''))) = StatusNotFound"
    by blast
  from 1 2 cep len all_digits_01001000 show ?thesis by blast
qed

text \<open>
  Claim C8. Two runs of the lookup handler on a request with the same valid postal code,
  against clients that resolve it to the same locality and the same temperature, give
  the same response, hence the same four fields of the record, whatever the state of
  tracing, the tracer and the headers of either run; the traced and the untraced handler
  agree as well.
\<close>

theorem C8_lookup_deterministic:
  assumes "Get (Query r1) ''cep'' = cep" and "Get (Query r2) ''cep'' = cep"
    and "length cep = 8" and "\<forall>c\<in>set cep. is_digit c"
    and "getCityByCEP (apiClient wh1) cep = Inr city"
    and "getCityByCEP (apiClient wh2) cep = Inr city"
    and "getTemperatureByCity (apiClient wh1) city = Inr t"
    and "getTemperatureByCity (apiClient wh2) city = Inr t"
  shows "fst (weatherHandler fused wh1 r1 st1) = fst (weatherHandler fused wh2 r2 st2) \<and>
         fst (weatherHandler_untraced fused (apiClient wh1) r1) =
           fst (weatherHandler_untraced fused (apiClient wh2) r2) \<and>
         fst (weatherHandler fused wh1 r1 st1) = fst (weatherHandler_untraced fused (apiClient wh2) r2)"
  using assms
  by (simp add: traced_response untraced_response IsValidCEP_digits isValidCEP_digits)

text \<open>
  Claim C8 at two runs that differ in their tracer, their trace state and their headers.
\<close>

theorem C8_lookup_deterministic_witness:
  "Get (Query (get_weather Map.empty ''01001000'')) ''cep'' = ''01001000'' \<and>
   Get (Query (get_weather [traceparent \<mapsto> ''00-4bf92f3577b34da6a3ce929d0e0e4736-00f067aa0ba902b7-01'']
     ''01001000'')) ''cep'' = ''01001000'' \<and>
   length ''01001000'' = 8 \<and> list_all is_digit ''01001000'' \<and>
   fst (weatherHandler False
          (NewWeatherHandler (fixed_client (Inr Sao_Paulo) (Inr (Finite 25))) example_tracer)
          (get_weather Map.empty ''01001000'') no_spans) =
   fst (weatherHandler False
          (NewWeatherHandler (fixed_client (Inr Sao_Paulo) (Inr (Finite 25))) other_tracer)
          (get_weather [traceparent \<mapsto> ''00-4bf92f3577b34da6a3ce929d0e0e4736-00f067aa0ba902b7-01'']
             ''01001000'')
          \<lparr>Drawn = 7, Spans = []\<rparr>)"
proof -
  let ?c = "fixed_client (Inr Sao_Paulo) (Inr (Finite 25))"
  have c1: "Get (Query (get_weather Map.empty ''01001000'')) ''cep'' = ''01001000''"
    and c2: "Get (Query (get_weather [traceparent \<mapsto> ''00-4bf92f3577b34da6a3ce929d0e0e4736-00f067aa0ba902b7-01'']
      ''01001000'')) ''cep'' = ''01001000''"
    by (simp_all add: get_weather_cep)
  have len: "length ''01001000'' = 8" and dig: "\<forall>c\<in>set ''01001000''. is_digit c"
    using digits_01001000 by simp_all
  have city1: "getCityByCEP (apiClient (NewWeatherHandler ?c example_tracer)) ''01001000'' = Inr Sao_Paulo"
    and city2: "getCityByCEP (apiClient (NewWeatherHandler ?c other_tracer)) ''01001000'' = Inr Sao_Paulo"
    and temp1: "getTemperatureByCity (apiClient (NewWeatherHandler ?c example_tracer)) Sao_Paulo = Inr (Finite 25)"
    and temp2: "getTemperatureByCity (apiClient (NewWeatherHandler ?c other_tracer)) Sao_Paulo = Inr (Finite 25)"
    by (simp_all add: NewWeatherHandler_def fixed_client_def)
  from C8_lookup_deterministic [where fused = False and ?st1.0 = no_spans
      and ?st2.0 = "\<lparr>Drawn = 7, Spans = []\<rparr>", OF c1 c2 len dig city1 city2 temp1 temp2]
  show ?thesis using c1 c2 len all_digits_01001000 by blast
qed

lemma getCityByCEP_example:
  "ApiClient_getCityByCEP (providers (Some address_found) w) ''01001000'' = Inr Sao_Paulo"
  by (simp add: ApiClient_getCityByCEP_def providers_def NewClient_def address_found_def
      Unmarshal_def Decode_def into_struct_def is_field_def fold_ascii_def zero_ViaCEPResponse_def
      Sao_Paulo_def)

text \<open>
  Claim C9. When the weather provider answers a JSON object in which no member
  \<^verbatim>\<open>current\<close> carries a member \<^verbatim>\<open>temp_c\<close> (the empty object for one),
  \<open>getTemperatureByCity\<close> returns 0 and no error, and the lookup handler, for a valid
  postal code whose locality is found, answers 200 with \<open>TempC = 0\<close>, \<open>TempF = 32\<close> and
  \<open>TempK = 273\<close>.
\<close>

theorem C9_missing_temp_c_is_zero:
  assumes "httpGet c (''https://api.weatherapi.com/v1/current.json?key='' @ wheatherApiKey c
              @ ''&q='' @ QueryEscape city) = Inr res"
    and "Data res = Some (JObject kvs)"
    and "\<forall>(k, v)\<in>set kvs. is_field ''current'' k \<longrightarrow>
           (\<exists>ms. v = JObject ms \<and> (\<forall>(k', v')\<in>set ms. \<not> is_field ''temp_c'' k'))"
  shows "ApiClient_getTemperatureByCity c city = Inr (Finite 0) \<and>
         (\<forall>fused tr r st cep.
            cep = Get (Query r) ''cep'' \<and> length cep = 8 \<and> (\<forall>d\<in>set cep. is_digit d) \<and>
            ApiClient_getCityByCEP c cep = Inr city \<longrightarrow>
            fst (weatherHandler fused \<lparr>apiClient = as_IApiClient c, tracer = tr\<rparr> r st) =
              \<lparr>StatusCode = StatusOK, ContentType = ''application/json'',
               Content = JSON \<lparr>City = city, TempC = Finite 0, TempF = Finite 32,
                                TempK = Finite 273\<rparr>\<rparr>)"
proof -
  have temp: "ApiClient_getTemperatureByCity c city = Inr (Finite 0)"
    using assms
    by (simp add: ApiClient_getTemperatureByCity_def Let_def Unmarshal_def Decode_def into_struct_def
        WeatherAPIResponse_members_no_temp_c zero_WeatherAPIResponse_def)
  then show ?thesis
    by (simp add: traced_response IsValidCEP_digits as_IApiClient_def aggregate_zero
        Encode_def encodable_def)
qed

text \<open>
  Claim C9 at a weather provider that answers \<^verbatim>\<open>{}\<close>.
\<close>

theorem C9_missing_temp_c_is_zero_witness:
  "httpGet (providers (Some address_found) (Some (JObject [])))
      (''https://api.weatherapi.com/v1/current.json?key=''
         @ wheatherApiKey (providers (Some address_found) (Some (JObject [])))
         @ ''&q='' @ QueryEscape Sao_Paulo) =
     Inr \<lparr>Status = 200, Data = Some (JObject []), ReadErr = None\<rparr> \<and>
   ApiClient_getTemperatureByCity (providers (Some address_found) (Some (JObject []))) Sao_Paulo =
     Inr (Finite 0) \<and>
   fst (weatherHandler False
          \<lparr>apiClient = as_IApiClient (providers (Some address_found) (Some (JObject []))),
           tracer = example_tracer\<rparr>
          (get_weather Map.empty ''01001000'') no_spans) =
     \<lparr>StatusCode = StatusOK, ContentType = ''application/json'',
      Content = JSON \<lparr>City = Sao_Paulo, TempC = Finite 0, TempF = Finite 32,
                       TempK = Finite 273\<rparr>\<rparr>"
proof -
  let ?c = "providers (Some address_found) (Some (JObject []))"
  have get: "httpGet ?c (''https://api.weatherapi.com/v1/current.json?key=''
         @ wheatherApiKey ?c @ ''&q='' @ QueryEscape Sao_Paulo) =
     Inr \<lparr>Status = 200, Data = Some (JObject []), ReadErr = None\<rparr>"
    by (simp add: providers_def NewClient_def)
  have data: "Data \<lparr>Status = 200, Data = Some (JObject []), ReadErr = None\<rparr> = Some (JObject [])"
    by simp
  have lacks: "\<forall>(k, v)\<in>set []. is_field ''current'' k \<longrightarrow>
      (\<exists>ms. v = JObject ms \<and> (\<forall>(k', v')\<in>set ms. \<not> is_field ''temp_c'' k'))"
    by simp
  note zero = C9_missing_temp_c_is_zero [OF get data lacks]
  have "''01001000'' = Get (Query (get_weather Map.empty ''01001000'')) ''cep'' \<and>
      length ''01001000'' = 8 \<and> (\<forall>d\<in>set ''01001000''. is_digit d) \<and>
      ApiClient_getCityByCEP ?c ''01001000'' = Inr Sao_Paulo"
    using digits_01001000 by (simp add: get_weather_cep getCityByCEP_example)
  with zero get show ?thesis by blast
qed

section \<open>Properties of the gateway\<close>

lemma getTemperatura_sent:
  "snd (getTemperatura rt ctx e) =
     (let url = WEATHER_SERVICE rt @ ''/weather?cep='' @ CEP e in
      case url_error rt url of
        Some err \<Rightarrow> []
      | None \<Rightarrow> [\<lparr>Method = ''GET'', URL = url, ReqHeader = Inject ctx Map.empty\<rparr>])"
  by (simp add: getTemperatura_def Let_def split: option.splits sum.splits)

lemma getTemperatura_result:
  "fst (getTemperatura rt ctx e) =
     (let url = WEATHER_SERVICE rt @ ''/weather?cep='' @ CEP e in
      case url_error rt url of
        Some err \<Rightarrow> Inl err
      | None \<Rightarrow>
         (case Do rt \<lparr>Method = ''GET'', URL = url, ReqHeader = Inject ctx Map.empty\<rparr> of
            Inl err \<Rightarrow> Inl err
          | Inr res \<Rightarrow>
             (case ReadErr res of
                Some err \<Rightarrow> Inl err
              | None \<Rightarrow> Unmarshal WeatherResponse_members (Data res) zero_WeatherResponse)))"
  by (simp add: getTemperatura_def Let_def split: option.splits sum.splits)

lemma handleRequest_response:
  "fst (handleRequest ws rt r st) =
     (case Decode Entrada_members (Body r) zero_Entrada of
        Inl err \<Rightarrow> http_Error payload_invalido StatusBadRequest
      | Inr entrada \<Rightarrow>
          if \<not> IsValidCEP (CEP entrada) then
            http_Error ''invalid zipcode'' StatusUnprocessableEntity
          else
            (case fst (getTemperatura rt (call_context ws r st) entrada) of
               Inl err \<Rightarrow>
                 http_Error ''Falha para recuperar os dados'' StatusInternalServerError
             | Inr response \<Rightarrow> Encode response))"
  by (simp add: handleRequest_def call_context_def Let_def split_beta split: sum.splits)

lemma handleRequest_sent:
  "fst (snd (handleRequest ws rt r st)) =
     (case Decode Entrada_members (Body r) zero_Entrada of
        Inl err \<Rightarrow> []
      | Inr entrada \<Rightarrow>
          if \<not> IsValidCEP (CEP entrada) then []
          else snd (getTemperatura rt (call_context ws r st) entrada))"
  by (simp add: handleRequest_def call_context_def Let_def split_beta split: sum.splits)

lemma sent_example:
  "fst (snd (handleRequest example_WebServer (downstream outcome) (post_cep ''01001000'')
      no_spans)) =
     [\<lparr>Method = ''GET'', URL = ''http://service_b:8080/weather?cep=01001000'',
       ReqHeader = Inject (call_context example_WebServer (post_cep ''01001000'') no_spans)
                     Map.empty\<rparr>]"
  using digits_01001000
  by (simp add: handleRequest_sent decode_post_cep IsValidCEP_digits getTemperatura_sent
      downstream_def)

text \<open>
  Claim C5. When the body of a gateway request decodes and its \<^verbatim>\<open>cep\<close> is not exactly
  eight decimal digits, \<open>handleRequest\<close> answers 422 and sends no outbound request.
  Validation precedes the downstream call: whenever an outbound request has been sent,
  the body had decoded to a postal code of exactly eight decimal digits.
\<close>

theorem C5_invalid_cep_no_outbound_call:
  "(\<forall>entrada. Decode Entrada_members (Body r) zero_Entrada = Inr entrada \<and>
       \<not> (length (CEP entrada) = 8 \<and> (\<forall>c\<in>set (CEP entrada). is_digit c)) \<longrightarrow>
       fst (handleRequest ws rt r st) =
         http_Error ''invalid zipcode'' StatusUnprocessableEntity \<and>
       fst (snd (handleRequest ws rt r st)) = []) \<and>
   (fst (snd (handleRequest ws rt r st)) \<noteq> [] \<longrightarrow>
      (\<exists>entrada. Decode Entrada_members (Body r) zero_Entrada = Inr entrada \<and>
         length (CEP entrada) = 8 \<and> (\<forall>c\<in>set (CEP entrada). is_digit c)))"
  by (auto simp: handleRequest_response handleRequest_sent IsValidCEP_digits
      split: sum.splits if_splits)

text \<open>
  Claim C5 at the postal code \<^verbatim>\<open>123\<close> of scenario B, and at a valid one, for which a
  request is sent.
\<close>

theorem C5_invalid_cep_no_outbound_call_witness:
  "Decode Entrada_members (Body (post_cep ''123'')) zero_Entrada = Inr \<lparr>CEP = ''123''\<rparr> \<and>
   \<not> (length ''123'' = 8 \<and> (\<forall>c\<in>set ''123''. is_digit c)) \<and>
   fst (handleRequest example_WebServer (downstream (Inl TransportError))
          (post_cep ''123'') no_spans) =
     http_Error ''invalid zipcode'' StatusUnprocessableEntity \<and>
   fst (snd (handleRequest example_WebServer (downstream (Inl TransportError))
          (post_cep ''123'') no_spans)) = [] \<and>
   fst (snd (handleRequest example_WebServer (downstream (Inl TransportError))
          (post_cep ''01001000'') no_spans)) \<noteq> [] \<and>
   (\<exists>entrada. Decode Entrada_members (Body (post_cep ''01001000'')) zero_Entrada =
        Inr entrada \<and>
      length (CEP entrada) = 8 \<and> (\<forall>c\<in>set (CEP entrada). is_digit c))"
  using C5_invalid_cep_no_outbound_call [of "post_cep ''123''" example_WebServer
      "downstream (Inl TransportError)" no_spans]
    C5_invalid_cep_no_outbound_call [of "post_cep ''01001000''" example_WebServer
      "downstream (Inl TransportError)" no_spans]
    decode_post_cep [of "''123''"] sent_example [of "Inl TransportError"]
  by simp

text \<open>
  Claim C10. A gateway request whose body is a JSON object without a member for the
  field \<^verbatim>\<open>cep\<close> decodes to the empty postal code; a request that decodes to the empty
  postal code (a missing or an empty \<^verbatim>\<open>cep\<close>) is answered 422, with no outbound request;
  and the answer is 400 exactly when the body fails to decode.
\<close>

theorem C10_missing_cep_is_422:
  "(\<forall>kvs. Body r = Some (JObject kvs) \<and> (\<forall>(k, v)\<in>set kvs. \<not> is_field ''cep'' k) \<longrightarrow>
      Decode Entrada_members (Body r) zero_Entrada = Inr \<lparr>CEP = []\<rparr>) \<and>
   (Decode Entrada_members (Body r) zero_Entrada = Inr \<lparr>CEP = []\<rparr> \<longrightarrow>
      fst (handleRequest ws rt r st) =
        http_Error ''invalid zipcode'' StatusUnprocessableEntity \<and>
      fst (snd (handleRequest ws rt r st)) = []) \<and>
   (StatusCode (fst (handleRequest ws rt r st)) = StatusBadRequest \<longleftrightarrow>
      (\<exists>err. Decode Entrada_members (Body r) zero_Entrada = Inl err))"
proof (intro conjI allI impI)
  fix kvs
  assume "Body r = Some (JObject kvs) \<and> (\<forall>(k, v)\<in>set kvs. \<not> is_field ''cep'' k)"
  then show "Decode Entrada_members (Body r) zero_Entrada = Inr \<lparr>CEP = []\<rparr>"
    by (simp add: Unmarshal_def Decode_def into_struct_def Entrada_members_no_field zero_Entrada_def)
next
  assume "Decode Entrada_members (Body r) zero_Entrada = Inr \<lparr>CEP = []\<rparr>"
  then show "fst (handleRequest ws rt r st) =
      http_Error ''invalid zipcode'' StatusUnprocessableEntity"
    by (simp add: handleRequest_response IsValidCEP_digits)
next
  assume "Decode Entrada_members (Body r) zero_Entrada = Inr \<lparr>CEP = []\<rparr>"
  then show "fst (snd (handleRequest ws rt r st)) = []"
    by (simp add: handleRequest_sent IsValidCEP_digits)
next
  show "StatusCode (fst (handleRequest ws rt r st)) = StatusBadRequest \<longleftrightarrow>
      (\<exists>err. Decode Entrada_members (Body r) zero_Entrada = Inl err)"
    by (auto simp: handleRequest_response http_Error_def Encode_def StatusBadRequest_def
        StatusUnprocessableEntity_def StatusInternalServerError_def StatusOK_def
        split: sum.splits)
qed

text \<open>
  Claim C10 at an object without \<^verbatim>\<open>cep\<close>, at an empty \<^verbatim>\<open>cep\<close>, and at a body that is not
  JSON.
\<close>

theorem C10_missing_cep_is_422_witness:
  "Body (post_body (JObject [(''other'', JNumber 1)])) = Some (JObject [(''other'', JNumber 1)]) \<and>
   \<not> is_field ''cep'' ''other'' \<and>
   fst (handleRequest example_WebServer (downstream (Inl TransportError))
          (post_body (JObject [(''other'', JNumber 1)])) no_spans) =
     http_Error ''invalid zipcode'' StatusUnprocessableEntity \<and>
   fst (handleRequest example_WebServer (downstream (Inl TransportError))
          (post_cep []) no_spans) =
     http_Error ''invalid zipcode'' StatusUnprocessableEntity \<and>
   StatusCode (fst (handleRequest example_WebServer (downstream (Inl TransportError))
          \<lparr>Header = Map.empty, Query = [], Body = None\<rparr> no_spans)) = StatusBadRequest"
proof -
  let ?rt = "downstream (Inl TransportError)"
  let ?kvs = "[(''other'', JNumber 1)]"
  have body: "Body (post_body (JObject ?kvs)) = Some (JObject ?kvs)"
    by (simp add: post_body_def)
  have lacks: "\<forall>(k, v)\<in>set ?kvs. \<not> is_field ''cep'' k"
    by (simp add: is_field_def fold_ascii_def)
  from C10_missing_cep_is_422 [of "post_body (JObject ?kvs)" example_WebServer ?rt no_spans]
    body lacks
  have 1: "fst (handleRequest example_WebServer ?rt (post_body (JObject ?kvs)) no_spans) =
      http_Error ''invalid zipcode'' StatusUnprocessableEntity"
    by blast
  from C10_missing_cep_is_422 [of "post_cep []" example_WebServer ?rt no_spans]
    decode_post_cep [of "[]"]
  have 2: "fst (handleRequest example_WebServer ?rt (post_cep []) no_spans) =
      http_Error ''invalid zipcode'' StatusUnprocessableEntity"
    by blast
  have "Decode Entrada_members (Body \<lparr>Header = Map.empty, Query = [], Body = None\<rparr>)
      zero_Entrada = Inl SyntaxError"
    by (simp add: Unmarshal_def Decode_def)
  with C10_missing_cep_is_422 [of "\<lparr>Header = Map.empty, Query = [], Body = None\<rparr>"
      example_WebServer ?rt no_spans]
  have 3: "StatusCode (fst (handleRequest example_WebServer ?rt
      \<lparr>Header = Map.empty, Query = [], Body = None\<rparr> no_spans)) = StatusBadRequest"
    by blast
  from 1 2 3 body lacks show ?thesis by simp
qed


text \<open>
  Claim C2, as amended. For a gateway request whose body decodes to a valid postal code:
  when the outbound request cannot be built, when the call times out or fails at the
  transport level, when the body of the response cannot be read, or when it fails to
  decode as a \<open>WeatherResponse\<close>, \<open>handleRequest\<close> answers 500. The status of the
  downstream response is not looked at: a response whose body is read and decodes is
  answered 200, whatever its status.
\<close>

theorem C2_gateway_500_on_failed_call:
  assumes "Decode Entrada_members (Body r) zero_Entrada = Inr entrada"
    and "length (CEP entrada) = 8" and "\<forall>c\<in>set (CEP entrada). is_digit c"
    and "handleRequest ws rt r st = (resp, sent, st')"
    and "url = WEATHER_SERVICE rt @ ''/weather?cep='' @ CEP entrada"
    and "failure = http_Error ''Falha para recuperar os dados'' StatusInternalServerError"
  shows "(\<forall>err. url_error rt url = Some err \<longrightarrow> resp = failure \<and> sent = []) \<and>
         (url_error rt url = None \<longrightarrow>
            (\<exists>req. sent = [req] \<and> Method req = ''GET'' \<and> URL req = url \<and>
               (\<forall>err. Do rt req = Inl err \<longrightarrow> resp = failure) \<and>
               (\<forall>res. Do rt req = Inr res \<longrightarrow>
                  (\<forall>err. ReadErr res = Some err \<longrightarrow> resp = failure) \<and>
                  (ReadErr res = None \<longrightarrow>
                     (case Unmarshal WeatherResponse_members (Data res) zero_WeatherResponse of
                        Inl err \<Rightarrow> resp = failure
                      | Inr w \<Rightarrow> StatusCode resp = StatusOK)))))"
proof -
  have valid: "IsValidCEP (CEP entrada)"
    using assms(2,3) by (simp add: IsValidCEP_digits)
  have resp: "resp = fst (handleRequest ws rt r st)"
    and sent: "sent = fst (snd (handleRequest ws rt r st))"
    using assms(4) by simp_all
  show ?thesis
    unfolding resp sent handleRequest_response handleRequest_sent
    using assms(1) valid
    by (auto simp: getTemperatura_result getTemperatura_sent assms(5,6) Let_def Encode_def
        split: sum.splits option.splits)
qed

text \<open>
  Claim C2 as stated fails: a downstream response with status 404 whose body is the JSON
  object \<^verbatim>\<open>{}\<close> decodes, and the gateway answers 200.
\<close>

theorem C2_counterexample:
  "StatusCode (fst (handleRequest example_WebServer
      (downstream (answer 404 (Some (JObject [])))) (post_cep ''01001000'') no_spans)) = 200"
  by (simp add: handleRequest_response getTemperatura_result IsValidCEP_digits is_digit_def
      post_cep_def post_body_def downstream_def answer_def Unmarshal_def Decode_def into_struct_def
      is_field_def fold_ascii_def zero_Entrada_def Encode_def StatusOK_def Let_def)

text \<open>
  Claim C2, as amended, at a call that exceeds its deadline and at a response whose body
  is not JSON.
\<close>

theorem C2_gateway_500_on_failed_call_witness:
  "Decode Entrada_members (Body (post_cep ''01001000'')) zero_Entrada =
     Inr \<lparr>CEP = ''01001000''\<rparr> \<and>
   length ''01001000'' = 8 \<and> list_all is_digit ''01001000'' \<and>
   fst (handleRequest example_WebServer (downstream (Inl DeadlineExceeded))
          (post_cep ''01001000'') no_spans) =
     http_Error ''Falha para recuperar os dados'' StatusInternalServerError \<and>
   fst (handleRequest example_WebServer (downstream (answer 200 None))
          (post_cep ''01001000'') no_spans) =
     http_Error ''Falha para recuperar os dados'' StatusInternalServerError"
proof -
  let ?r = "post_cep ''01001000''"
  let ?e = "\<lparr>CEP = ''01001000''\<rparr>"
  have dec: "Decode Entrada_members (Body ?r) zero_Entrada = Inr ?e"
    by (rule decode_post_cep)
  have len: "length (CEP ?e) = 8" and dig: "\<forall>c\<in>set (CEP ?e). is_digit c"
    using digits_01001000 by simp_all
  have "fst (handleRequest example_WebServer (downstream (Inl DeadlineExceeded)) ?r no_spans) =
      http_Error ''Falha para recuperar os dados'' StatusInternalServerError"
    using C2_gateway_500_on_failed_call [where ws = example_WebServer
        and rt = "downstream (Inl DeadlineExceeded)" and st = no_spans,
        OF dec len dig triple refl refl]
    by (auto simp: downstream_def)
  moreover have "fst (handleRequest example_WebServer (downstream (answer 200 None)) ?r no_spans) =
      http_Error ''Falha para recuperar os dados'' StatusInternalServerError"
    using C2_gateway_500_on_failed_call [where ws = example_WebServer
        and rt = "downstream (answer 200 None)" and st = no_spans,
        OF dec len dig triple refl refl]
    by (auto simp: downstream_def answer_def Unmarshal_def Decode_def)
  ultimately show ?thesis using dec digits_01001000 all_digits_01001000 by simp
qed

text \<open>
  Claim C6. For a gateway request whose body decodes to a valid postal code, one
  outbound request is sent (when it can be built), and when the call to it succeeds, its
  body is read and decodes to a record, \<open>handleRequest\<close> answers 200 with the JSON
  encoding of that very record: the four fields are the decoded ones.
\<close>

theorem C6_relays_decoded_record:
  assumes "Decode Entrada_members (Body r) zero_Entrada = Inr entrada"
    and "length (CEP entrada) = 8" and "\<forall>c\<in>set (CEP entrada). is_digit c"
    and "handleRequest ws rt r st = (resp, sent, st')"
  shows "(url_error rt (WEATHER_SERVICE rt @ ''/weather?cep='' @ CEP entrada) = None \<longrightarrow>
            length sent = 1) \<and>
         (\<forall>req res w. req \<in> set sent \<and> Do rt req = Inr res \<and> ReadErr res = None \<and>
            Unmarshal WeatherResponse_members (Data res) zero_WeatherResponse = Inr w \<longrightarrow>
            resp = \<lparr>StatusCode = StatusOK, ContentType = ''application/json'',
                     Content = JSON w\<rparr>)"
proof -
  have valid: "IsValidCEP (CEP entrada)"
    using assms(2,3) by (simp add: IsValidCEP_digits)
  have resp: "resp = fst (handleRequest ws rt r st)"
    and sent: "sent = fst (snd (handleRequest ws rt r st))"
    using assms(4) by simp_all
  show ?thesis
    unfolding resp sent handleRequest_response handleRequest_sent
    using assms(1) valid
    by (auto simp: getTemperatura_result getTemperatura_sent Let_def Encode_def
        Unmarshal_WeatherResponse_encodable split: sum.splits option.splits)
qed

text \<open>
  Claim C6 at a downstream that answers the record of scenario A.
\<close>

theorem C6_relays_decoded_record_witness:
  "Decode Entrada_members (Body (post_cep ''01001000'')) zero_Entrada =
     Inr \<lparr>CEP = ''01001000''\<rparr> \<and>
   length ''01001000'' = 8 \<and> list_all is_digit ''01001000'' \<and>
   length (fst (snd (handleRequest example_WebServer
      (downstream (answer 200 (Some example_record))) (post_cep ''01001000'') no_spans))) = 1 \<and>
   fst (handleRequest example_WebServer (downstream (answer 200 (Some example_record)))
          (post_cep ''01001000'') no_spans) =
     \<lparr>StatusCode = StatusOK, ContentType = ''application/json'',
      Content = JSON \<lparr>City = Sao_Paulo, TempC = Finite 25, TempF = Finite 77,
                       TempK = Finite 298\<rparr>\<rparr>"
proof -
  let ?r = "post_cep ''01001000''"
  let ?e = "\<lparr>CEP = ''01001000''\<rparr>"
  let ?rt = "downstream (answer 200 (Some example_record))"
  have dec: "Decode Entrada_members (Body ?r) zero_Entrada = Inr ?e"
    by (rule decode_post_cep)
  have len: "length (CEP ?e) = 8" and dig: "\<forall>c\<in>set (CEP ?e). is_digit c"
    using digits_01001000 by simp_all
  note relay = C6_relays_decoded_record [where ws = example_WebServer and rt = ?rt
      and st = no_spans, OF dec len dig triple]
  have one: "length (fst (snd (handleRequest example_WebServer ?rt ?r no_spans))) = 1"
    using relay by (simp add: downstream_def)
  have "\<exists>req. req \<in> set (fst (snd (handleRequest example_WebServer ?rt ?r no_spans))) \<and>
      Do ?rt req = Inr \<lparr>Status = 200, Data = Some example_record, ReadErr = None\<rparr>"
    by (simp add: sent_example) (simp add: downstream_def answer_def)
  with relay decode_example_record
  have "fst (handleRequest example_WebServer ?rt ?r no_spans) =
     \<lparr>StatusCode = StatusOK, ContentType = ''application/json'',
      Content = JSON \<lparr>City = Sao_Paulo, TempC = Finite 25, TempF = Finite 77,
                       TempK = Finite 298\<rparr>\<rparr>"
    by (metis (no_types, lifting) client_response.select_convs(2,3))
  with one dec digits_01001000 all_digits_01001000 show ?thesis by simp
qed

section \<open>Propagation of the trace context\<close>

lemma split_on_append:
  "d \<notin> set a \<Longrightarrow> split_on d (a @ d # rest) = a # split_on d rest"
  by (induction a) auto

lemma split_on_no_delimiter: "d \<notin> set a \<Longrightarrow> split_on d a = [a]"
  by (induction a) auto

lemma is_hex_not_hyphen: "is_hex c \<Longrightarrow> c \<noteq> CHR ''-''"
  by (auto simp: is_hex_def)

lemma valid_id_no_hyphen: "valid_id n s \<Longrightarrow> CHR ''-'' \<notin> set s"
  unfolding valid_id_def list_all_iff using is_hex_not_hyphen by blast

lemma parse_format_traceparent:
  assumes "IsValid sc"
  shows "parse_traceparent (format_traceparent sc) = Some (sc\<lparr>Remote := True\<rparr>)"
proof -
  let ?flags = "if Sampled sc then ''01'' else ''00''"
  have t: "CHR ''-'' \<notin> set (TraceID sc)" and s: "CHR ''-'' \<notin> set (SpanID sc)"
    using assms by (auto simp: IsValid_def dest: valid_id_no_hyphen)
  have "split_on CHR ''-'' (format_traceparent sc) = [''00'', TraceID sc, SpanID sc, ?flags]"
    by (simp add: format_traceparent_def split_on_append [OF t] split_on_append [OF s]
        split_on_no_delimiter)
  then show ?thesis
    using assms by (simp add: parse_traceparent_def IsValid_def is_hex_def)
qed

lemma Extract_Inject:
  assumes "SpanContextFromContext ctx = Some sc" and "IsValid sc"
  shows "Extract ctx0 (Inject ctx carrier) =
           ctx0\<lparr>SpanContextFromContext := Some (sc\<lparr>Remote := True\<rparr>)\<rparr>"
  using assms by (simp add: Extract_def Inject_def parse_format_traceparent)

lemma skeleton_on_span:
  assumes "\<And>sp. Name (f sp) = Name sp \<and> Context (f sp) = Context sp \<and> Parent (f sp) = Parent sp"
  shows "skeleton (on_span i f st) = skeleton st"
  using assms by (simp add: skeleton_def on_span_def map_update list_update_same_conv)

lemma skeleton_RecordError: "skeleton (RecordError i err st) = skeleton st"
  by (simp add: RecordError_def skeleton_on_span)

lemma skeleton_SetStatus: "skeleton (SetStatus i s st) = skeleton st"
  by (simp add: SetStatus_def skeleton_on_span)

lemma skeleton_End: "skeleton (End i st) = skeleton st"
  by (simp add: End_def skeleton_on_span)

lemma skeleton_Start:
  "skeleton (snd (Start tr ctx name st)) =
     skeleton st @ [(name, new_span_context tr (parent_of ctx) (Drawn st), parent_of ctx)]"
  by (simp add: Start_def skeleton_def Let_def)

lemma context_Start:
  "fst (fst (Start tr ctx name st)) =
     ctx\<lparr>SpanContextFromContext := Some (new_span_context tr (parent_of ctx) (Drawn st))\<rparr>"
  by (simp add: Start_def Let_def)

lemma length_skeleton: "length (skeleton st) = length (Spans st)"
  by (simp add: skeleton_def)

lemma skeleton_nth:
  "i < length (Spans st) \<Longrightarrow>
     skeleton st ! i = (Name (Spans st ! i), Context (Spans st ! i), Parent (Spans st ! i))"
  by (simp add: skeleton_def)

lemmas skeleton_simps =
  skeleton_RecordError skeleton_SetStatus skeleton_End skeleton_Start context_Start

lemma IsValid_new_span_context:
  assumes "\<forall>n. valid_id 32 (NewTraceID tr n) \<and> valid_id 16 (NewSpanID tr n)"
  shows "IsValid (new_span_context tr (parent_of ctx) n)"
  using assms
  by (auto simp: new_span_context_def parent_of_def IsValid_def split: option.splits)

lemma skeleton_weatherHandler:
  "\<exists>rest. skeleton (snd (snd (weatherHandler fused wh r st))) =
     skeleton st @
       (''Validate inputs'',
        new_span_context (tracer wh) (parent_of (Extract Background (Header r))) (Drawn st),
        parent_of (Extract Background (Header r))) # rest"
  by (simp add: weatherHandler_def Let_def split_beta skeleton_simps split: sum.splits)

lemma skeleton_handleRequest:
  assumes "Decode Entrada_members (Body r) zero_Entrada = Inr entrada"
    and "IsValidCEP (CEP entrada)"
  shows "\<exists>v sc. SpanContextFromContext (call_context ws r st) = Some sc \<and>
           skeleton (snd (snd (handleRequest ws rt r st))) =
             skeleton st @ [v, (''Call to service_b'', sc, parent_of (fst (fst (Start (Tracer ws) (Extract Background (Header r)) ''Validate inputs'' st))))]"
  using assms
  by (simp add: handleRequest_def call_context_def Let_def split_beta skeleton_simps
      split: sum.splits)

lemma call_context_valid:
  assumes "\<forall>n. valid_id 32 (NewTraceID (Tracer ws) n) \<and> valid_id 16 (NewSpanID (Tracer ws) n)"
  shows "\<exists>sc. SpanContextFromContext (call_context ws r st) = Some sc \<and> IsValid sc"
  using IsValid_new_span_context [OF assms]
  by (simp add: call_context_def split_beta context_Start)

lemma example_tracer_ids:
  "\<forall>n. valid_id 32 (NewTraceID (Tracer example_WebServer) n) \<and>
       valid_id 16 (NewSpanID (Tracer example_WebServer) n)"
  by (simp add: example_WebServer_def example_tracer_def valid_id_def is_hex_def)

text \<open>
  Claim C7. Let the gateway's tracer draw well-formed identifiers, let the gateway send
  an outbound request, and let the lookup service handle a request with the headers of
  that outbound request. Then the span context that the lookup service extracts is the
  one of the gateway's span \<^verbatim>\<open>Call to service_b\<close> (injecting and extracting is a round
  trip, up to the mark that the context is remote), it is the parent of the lookup
  service's span \<^verbatim>\<open>Validate inputs\<close>, and the two spans have the same trace identifier.
\<close>

theorem C7_trace_context_round_trip:
  assumes ids: "\<forall>n. valid_id 32 (NewTraceID (Tracer ws) n) \<and> valid_id 16 (NewSpanID (Tracer ws) n)"
    and gateway: "handleRequest ws rt r st = (resp, sent, st')"
    and req: "req \<in> set sent"
    and carried: "Header rb = ReqHeader req"
    and lookup: "weatherHandler fused wh rb stb = (respb, calls, stb')"
    and a: "a = Spans st' ! Suc (length (Spans st))"
    and b: "b = Spans stb' ! length (Spans stb)"
  shows "Name a = ''Call to service_b'' \<and> Name b = ''Validate inputs'' \<and>
         SpanContextFromContext (Extract Background (Header rb)) =
           Some ((Context a)\<lparr>Remote := True\<rparr>) \<and>
         Parent b = Some ((Context a)\<lparr>Remote := True\<rparr>) \<and>
         TraceID (Context b) = TraceID (Context a)"
proof -
  have sent: "sent = fst (snd (handleRequest ws rt r st))"
    and st': "st' = snd (snd (handleRequest ws rt r st))"
    using gateway by simp_all
  from req have "\<exists>entrada. Decode Entrada_members (Body r) zero_Entrada = Inr entrada \<and>
      IsValidCEP (CEP entrada) \<and>
      req \<in> set (snd (getTemperatura rt (call_context ws r st) entrada))"
    unfolding sent handleRequest_sent
    by (cases "Decode Entrada_members (Body r) zero_Entrada") (auto split: if_splits)
  then obtain entrada where dec: "Decode Entrada_members (Body r) zero_Entrada = Inr entrada"
    and valid: "IsValidCEP (CEP entrada)"
    and in_sent: "req \<in> set (snd (getTemperatura rt (call_context ws r st) entrada))"
    by blast
  from in_sent have header: "ReqHeader req = Inject (call_context ws r st) Map.empty"
    by (auto simp: getTemperatura_sent Let_def split: option.splits)
  from call_context_valid [OF ids] obtain sc
    where sc: "SpanContextFromContext (call_context ws r st) = Some sc" and ok: "IsValid sc"
    by blast
  from skeleton_handleRequest [OF dec valid, of ws st rt] sc obtain v p
    where sk: "skeleton st' = skeleton st @ [v, (''Call to service_b'', sc, p)]"
    unfolding st' by auto
  have len: "Suc (length (Spans st)) < length (Spans st')"
    using arg_cong [OF sk, of length] by (simp add: length_skeleton)
  have "skeleton st' ! Suc (length (Spans st)) = (''Call to service_b'', sc, p)"
    unfolding sk by (simp add: nth_append length_skeleton)
  then have name_a: "Name a = ''Call to service_b''" and ctx_a: "Context a = sc"
    unfolding a using skeleton_nth [OF len] by simp_all
  have extracted: "Extract Background (Header rb) =
      Background\<lparr>SpanContextFromContext := Some (sc\<lparr>Remote := True\<rparr>)\<rparr>"
    unfolding carried header using sc ok by (rule Extract_Inject)
  have parent: "parent_of (Extract Background (Header rb)) = Some (sc\<lparr>Remote := True\<rparr>)"
    unfolding extracted using ok by (simp add: parent_of_def IsValid_def)
  have stb': "stb' = snd (snd (weatherHandler fused wh rb stb))"
    using lookup by simp
  from skeleton_weatherHandler [of fused wh rb stb] obtain rest
    where skb: "skeleton stb' = skeleton stb @
        (''Validate inputs'',
         new_span_context (tracer wh) (Some (sc\<lparr>Remote := True\<rparr>)) (Drawn stb),
         Some (sc\<lparr>Remote := True\<rparr>)) # rest"
    unfolding stb' parent by blast
  have lenb: "length (Spans stb) < length (Spans stb')"
    using arg_cong [OF skb, of length] by (simp add: length_skeleton)
  have "skeleton stb' ! length (Spans stb) =
      (''Validate inputs'',
       new_span_context (tracer wh) (Some (sc\<lparr>Remote := True\<rparr>)) (Drawn stb),
       Some (sc\<lparr>Remote := True\<rparr>))"
    unfolding skb by (simp add: nth_append length_skeleton)
  then have name_b: "Name b = ''Validate inputs''"
    and ctx_b: "Context b = new_span_context (tracer wh) (Some (sc\<lparr>Remote := True\<rparr>)) (Drawn stb)"
    and parent_b: "Parent b = Some (sc\<lparr>Remote := True\<rparr>)"
    unfolding b using skeleton_nth [OF lenb] by simp_all
  show ?thesis
    by (simp add: name_a name_b ctx_a ctx_b parent_b extracted new_span_context_def)
qed

text \<open>
  Claim C7 at a gateway and a lookup service whose tracers draw different trace
  identifiers.
\<close>

theorem C7_trace_context_round_trip_witness:
  "(\<forall>n. valid_id 32 (NewTraceID (Tracer example_WebServer) n) \<and>
        valid_id 16 (NewSpanID (Tracer example_WebServer) n)) \<and>
   hd (fst (snd (handleRequest example_WebServer (downstream (answer 200 (Some example_record)))
        (post_cep ''01001000'') no_spans)))
     \<in> set (fst (snd (handleRequest example_WebServer
          (downstream (answer 200 (Some example_record))) (post_cep ''01001000'') no_spans))) \<and>
   TraceID (Context (Spans (snd (snd (weatherHandler False
       (NewWeatherHandler (fixed_client (Inr Sao_Paulo) (Inr (Finite 25))) other_tracer)
       (get_weather (ReqHeader (hd (fst (snd (handleRequest example_WebServer
          (downstream (answer 200 (Some example_record))) (post_cep ''01001000'') no_spans)))))
          ''01001000'')
       no_spans))) ! 0)) =
   TraceID (Context (Spans (snd (snd (handleRequest example_WebServer
       (downstream (answer 200 (Some example_record))) (post_cep ''01001000'') no_spans))) ! 1))"
proof -
  let ?gw = "handleRequest example_WebServer (downstream (answer 200 (Some example_record)))
      (post_cep ''01001000'') no_spans"
  let ?req = "hd (fst (snd ?gw))"
  let ?rb = "get_weather (ReqHeader ?req) ''01001000''"
  let ?wh = "NewWeatherHandler (fixed_client (Inr Sao_Paulo) (Inr (Finite 25))) other_tracer"
  have req: "?req \<in> set (fst (snd ?gw))"
    by (simp add: sent_example)
  have carried: "Header ?rb = ReqHeader ?req"
    by (simp add: get_weather_def)
  have a: "Spans (snd (snd ?gw)) ! 1 = Spans (snd (snd ?gw)) ! Suc (length (Spans no_spans))"
    and b: "Spans (snd (snd (weatherHandler False ?wh ?rb no_spans))) ! 0 =
      Spans (snd (snd (weatherHandler False ?wh ?rb no_spans))) ! length (Spans no_spans)"
    by (simp_all add: no_spans_def)
  from C7_trace_context_round_trip [OF example_tracer_ids triple req carried triple a b]
  show ?thesis using example_tracer_ids req by simp
qed

text \<open>
  Without the header of the gateway, the span of that lookup service is in a trace of
  its own.
\<close>

lemma other_trace_id:
  "TraceID (Context (Spans (snd (snd (weatherHandler False
       (NewWeatherHandler (fixed_client (Inr Sao_Paulo) (Inr (Finite 25))) other_tracer)
       (get_weather Map.empty ''01001000'') no_spans))) ! 0)) = ''0af7651916cd43dd8448eb211c80319c''"
  by (simp add: weatherHandler_def Let_def Start_def parent_of_def Extract_def get_weather_def
    Background_def new_span_context_def other_tracer_def NewWeatherHandler_def no_spans_def
    IsValidCEP_digits get_weather_cep is_digit_def Get_def fixed_client_def End_def on_span_def nth_append)

end
